theory Spec2Isabelle
  imports Complex_Main "HOL-Library.Word" "HOL-Library.Log_Nat"
begin

section \<open>IEEE-754 binary floating point\<close>

text \<open>
  The sources compute in C \<^verbatim>\<open>float\<close> (binary32) and \<^verbatim>\<open>double\<close> (binary64).  A floating-point
  datum is a NaN, a signed infinity, or a signed magnitude; the sign flag is \<open>True\<close> for a
  set sign bit, so \<open>Num True 0\<close> is \<open>-0.0\<close>.  Every arithmetic operation computes the exact
  rational result and rounds it once, to nearest with ties to even, into the format of the
  operation (the default rounding mode, which none of the sources changes).  Each
  source-level operator is one such operation: no contraction into fused operations and no
  excess precision.
\<close>

datatype fp = NaN | Infty bool | Num bool rat

record fmt =
  prec :: nat
  emin :: int
  emax :: int

definition binary32 :: fmt where
  "binary32 = \<lparr>prec = 24, emin = - 149, emax = 128\<rparr>"

definition binary64 :: fmt where
  "binary64 = \<lparr>prec = 53, emin = - 1074, emax = 1024\<rparr>"

text \<open>\<open>ilog2 q\<close> is \<open>\<lfloor>log\<^sub>2 q\<rfloor>\<close> for a positive rational \<open>q\<close>.\<close>

definition ilog2 :: "rat \<Rightarrow> int" where
  "ilog2 q = (if 1 \<le> q then bitlen \<lfloor>q\<rfloor> - 1 else - bitlen (\<lceil>1 / q\<rceil> - 1))"

text \<open>Rounding a non-negative rational to the nearest integer, ties to the even one.\<close>

definition rne :: "rat \<Rightarrow> int" where
  "rne q = (let f = \<lfloor>q\<rfloor>; r = q - of_int f in
     if r < 1 / 2 then f else if 1 / 2 < r then f + 1 else if even f then f else f + 1)"

text \<open>
  The exponent of the unit in the last place for a magnitude \<open>q\<close>: \<open>prec\<close> significant
  bits, but never finer than the subnormal spacing \<open>2 powi emin\<close>.
\<close>

definition ulp_exp :: "fmt \<Rightarrow> rat \<Rightarrow> int" where
  "ulp_exp F q = max (ilog2 q - (int (prec F) - 1)) (emin F)"

definition round_mag :: "fmt \<Rightarrow> rat \<Rightarrow> rat" where
  "round_mag F q = (let e = ulp_exp F q in of_int (rne (q / 2 powi e)) * 2 powi e)"

text \<open>A rounded magnitude of \<open>2 powi emax\<close> or more has left the format: the result is infinite.\<close>

definition round_fin :: "fmt \<Rightarrow> bool \<Rightarrow> rat \<Rightarrow> fp" where
  "round_fin F s q = (let v = round_mag F q in if 2 powi emax F \<le> v then Infty s else Num s v)"

definition sval :: "bool \<Rightarrow> rat \<Rightarrow> rat" where
  "sval s m = (if s then - m else m)"

text \<open>Rounding a signed exact result; \<open>z\<close> is the sign an exact zero result takes.\<close>

definition round_signed :: "fmt \<Rightarrow> bool \<Rightarrow> rat \<Rightarrow> fp" where
  "round_signed F z r = (if r = 0 then Num z 0 else round_fin F (r < 0) \<bar>r\<bar>)"

text \<open>A datum belongs to a format when rounding into the format leaves it unchanged.\<close>

fun is_fp :: "fmt \<Rightarrow> fp \<Rightarrow> bool" where
  "is_fp F (Num s m) = (0 \<le> m \<and> round_fin F s m = Num s m)"
| "is_fp F x = True"


fun is_zero :: "fp \<Rightarrow> bool" where
  "is_zero (Num s m) = (m = 0)"
| "is_zero x = False"

fun fneg :: "fp \<Rightarrow> fp" where
  "fneg (Num s m) = Num (\<not> s) m"
| "fneg (Infty s) = Infty (\<not> s)"
| "fneg NaN = NaN"

fun fabs :: "fp \<Rightarrow> fp" where
  "fabs (Num s m) = Num False m"
| "fabs (Infty s) = Infty False"
| "fabs NaN = NaN"

fun fadd :: "fmt \<Rightarrow> fp \<Rightarrow> fp \<Rightarrow> fp" where
  "fadd F (Num s m) (Num t n) = round_signed F (s \<and> t) (sval s m + sval t n)"
| "fadd F (Num s m) (Infty t) = Infty t"
| "fadd F (Infty s) (Num t n) = Infty s"
| "fadd F (Infty s) (Infty t) = (if s = t then Infty s else NaN)"
| "fadd F _ _ = NaN"

fun fsub :: "fmt \<Rightarrow> fp \<Rightarrow> fp \<Rightarrow> fp" where
  "fsub F (Num s m) (Num t n) = round_signed F (s \<and> \<not> t) (sval s m - sval t n)"
| "fsub F (Num s m) (Infty t) = Infty (\<not> t)"
| "fsub F (Infty s) (Num t n) = Infty s"
| "fsub F (Infty s) (Infty t) = (if s = t then NaN else Infty s)"
| "fsub F _ _ = NaN"

fun fmul :: "fmt \<Rightarrow> fp \<Rightarrow> fp \<Rightarrow> fp" where
  "fmul F (Num s m) (Num t n) = round_fin F (s \<noteq> t) (m * n)"
| "fmul F (Num s m) (Infty t) = (if m = 0 then NaN else Infty (s \<noteq> t))"
| "fmul F (Infty s) (Num t n) = (if n = 0 then NaN else Infty (s \<noteq> t))"
| "fmul F (Infty s) (Infty t) = Infty (s \<noteq> t)"
| "fmul F _ _ = NaN"

fun fdiv :: "fmt \<Rightarrow> fp \<Rightarrow> fp \<Rightarrow> fp" where
  "fdiv F (Num s m) (Num t n) =
     (if n = 0 then (if m = 0 then NaN else Infty (s \<noteq> t)) else round_fin F (s \<noteq> t) (m / n))"
| "fdiv F (Num s m) (Infty t) = Num (s \<noteq> t) 0"
| "fdiv F (Infty s) (Num t n) = Infty (s \<noteq> t)"
| "fdiv F _ _ = NaN"

text \<open>
  The fused multiply-add \<open>a * b + c\<close> rounds once.  When \<open>a\<close> or \<open>b\<close> is not a number the
  product is exactly an infinity or a NaN, and adding \<open>c\<close> to it does not round either.
\<close>

fun ffma :: "fmt \<Rightarrow> fp \<Rightarrow> fp \<Rightarrow> fp \<Rightarrow> fp" where
  "ffma F (Num s m) (Num t n) (Num u k) =
     round_signed F ((s \<noteq> t) \<and> u) (sval (s \<noteq> t) (m * n) + sval u k)"
| "ffma F (Num s m) (Num t n) c = c"
| "ffma F a b c = fadd F (fmul F a b) c"

text \<open>The comparisons \<^verbatim>\<open><\<close> and \<^verbatim>\<open><=\<close>: false whenever an operand is a NaN; \<open>-0.0\<close> equals \<open>0.0\<close>.\<close>

fun flt :: "fp \<Rightarrow> fp \<Rightarrow> bool" where
  "flt (Num s m) (Num t n) = (sval s m < sval t n)"
| "flt (Num s m) (Infty t) = (\<not> t)"
| "flt (Infty s) (Num t n) = s"
| "flt (Infty s) (Infty t) = (s \<and> \<not> t)"
| "flt _ _ = False"

fun fle :: "fp \<Rightarrow> fp \<Rightarrow> bool" where
  "fle (Num s m) (Num t n) = (sval s m \<le> sval t n)"
| "fle (Num s m) (Infty t) = (\<not> t)"
| "fle (Infty s) (Num t n) = s"
| "fle (Infty s) (Infty t) = (s \<or> s = t)"
| "fle _ _ = False"

text \<open>The conversions: \<^verbatim>\<open>(float)\<close> of a double, \<^verbatim>\<open>(float)\<close> of an int, \<^verbatim>\<open>std::floor\<close>.\<close>

fun f32_of_f64 :: "fp \<Rightarrow> fp" where
  "f32_of_f64 (Num s m) = round_fin binary32 s m"
| "f32_of_f64 x = x"

definition f32_of_int :: "int \<Rightarrow> fp" where
  "f32_of_int i = round_signed binary32 False (of_int i)"

fun ffloor :: "fp \<Rightarrow> fp" where
  "ffloor (Num s m) =
     (let f = \<lfloor>sval s m\<rfloor> in if f = 0 then Num s 0 else Num (f < 0) (of_int \<bar>f\<bar>))"
| "ffloor x = x"

text \<open>
  \<^verbatim>\<open>(long)\<close> of a floating value truncates toward zero; the conversion is undefined (\<open>None\<close>)
  for a NaN, an infinity and a value outside the range of \<^verbatim>\<open>long\<close>, taken as 64 bits (LP64).
\<close>

fun long_of_fp :: "fp \<Rightarrow> int option" where
  "long_of_fp (Num s m) =
     (let k = (if s then - \<lfloor>m\<rfloor> else \<lfloor>m\<rfloor>) in
      if - (2 ^ 63) \<le> k \<and> k < 2 ^ 63 then Some k else None)"
| "long_of_fp x = None"

text \<open>Subtraction of two \<^verbatim>\<open>long\<close> values: signed overflow is undefined.\<close>

definition long_sub :: "int \<Rightarrow> int \<Rightarrow> int option" where
  "long_sub a b = (let d = a - b in if - (2 ^ 63) \<le> d \<and> d < 2 ^ 63 then Some d else None)"

text \<open>\<^verbatim>\<open>(int)\<close> of a \<^verbatim>\<open>long\<close> keeps the low 32 bits, read as two's complement.\<close>

definition int_of_long :: "int \<Rightarrow> int" where
  "int_of_long k = signed_take_bit 31 k"

text \<open>\<^verbatim>\<open>f32_from_hex\<close>: the binary32 datum with the given bit pattern.\<close>

definition f32_from_hex :: "32 word \<Rightarrow> fp" where
  "f32_from_hex u =
     (let s = bit u 31; e = unat (take_bit 8 (drop_bit 23 u)); m = unat (take_bit 23 u) in
      if e = 255 then (if m = 0 then Infty s else NaN)
      else if e = 0 then Num s (of_nat m * 2 powi (- 149))
      else Num s (of_nat (2 ^ 23 + m) * 2 powi (int e - 150)))"

section \<open>The simulation model: constants\<close>

text \<open>
  The three simulation sources (\<^verbatim>\<open>PID_MY_DIGIT.cpp\<close>, \<^verbatim>\<open>pid_compare.cpp\<close>,
  \<^verbatim>\<open>pid_last_compare.cpp\<close>) fix the coefficients as binary32 bit patterns.
\<close>

definition C0 :: fp where "C0 = f32_from_hex 0x3C864B8B"
definition C1 :: fp where "C1 = f32_from_hex 0x3DE21965"
definition C2 :: fp where "C2 = f32_from_hex 0xBDE4FC8E"
definition C3 :: fp where "C3 = f32_from_hex 0x3AEC5C01"
definition C4 :: fp where "C4 = f32_from_hex 0xBEA75178"
definition C5 :: fp where "C5 = f32_from_hex 0x3F0B6AB1"
definition C6 :: fp where "C6 = f32_from_hex 0xBE5F6EF6"
definition C7A :: fp where "C7A = f32_from_hex 0x3B9D4952"
definition C7B :: fp where "C7B = f32_from_hex 0xB8A505D6"

definition YSAT :: fp where "YSAT = f32_from_hex 0x41400000"
definition W_TGT :: fp where "W_TGT = f32_from_hex 0x42C80000"
definition INT2RADS :: fp where "INT2RADS = f32_from_hex 0x3F70CAF0"

text \<open>A decimal \<^verbatim>\<open>float\<close> literal such as \<^verbatim>\<open>0.005f\<close>, and the literal \<^verbatim>\<open>0.0f\<close>.\<close>

definition f32_lit :: "rat \<Rightarrow> fp" where
  "f32_lit q = round_signed binary32 False q"

definition zero_f :: fp where
  "zero_f = Num False 0"

text \<open>The constants of the three \<^verbatim>\<open>main\<close> functions: \<^verbatim>\<open>Ts = 0.005f\<close>, \<^verbatim>\<open>Ku = 50.0f\<close>, \<^verbatim>\<open>lam = 5.0f\<close>.\<close>

definition Ts_sim :: fp where
  "Ts_sim = f32_lit (5 / 1000)"

definition Ku :: fp where
  "Ku = f32_lit 50"

definition lam :: fp where
  "lam = f32_lit 5"

text \<open>The helpers that force a rounding to \<^verbatim>\<open>float\<close> after each multiply and each add.\<close>

definition mul_rn :: "fp \<Rightarrow> fp \<Rightarrow> fp" where
  "mul_rn a b = fmul binary32 a b"

definition add_rn :: "fp \<Rightarrow> fp \<Rightarrow> fp" where
  "add_rn a b = fadd binary32 a b"

text \<open>
  \<^verbatim>\<open>std::clamp(v, lo, hi)\<close>, as the standard libraries implement it with two \<^verbatim>\<open><\<close>
  comparisons.  (The C++ standard leaves it undefined for \<open>hi < lo\<close> and for NaN.)
\<close>

definition clamp :: "fp \<Rightarrow> fp \<Rightarrow> fp \<Rightarrow> fp" where
  "clamp v lo hi = (if flt v lo then lo else if flt hi v then hi else v)"

section \<open>The delta-form controller \<^verbatim>\<open>DeltaPid2TapAw\<close>\<close>

record DeltaPid2TapAw =
  YSAT_lim :: fp
  dy1 :: fp
  w1 :: fp
  w2 :: fp
  x1 :: fp
  x2 :: fp
  y_unsat_1 :: fp
  y_unsat_2 :: fp
  y_sat_1 :: fp
  y_sat_2 :: fp

definition reset :: "DeltaPid2TapAw \<Rightarrow> DeltaPid2TapAw" where
  "reset st =
     (let st = st\<lparr>dy1 := zero_f\<rparr>;
          st = st\<lparr>w2 := zero_f\<rparr>; st = st\<lparr>w1 := w2 st\<rparr>;
          st = st\<lparr>x2 := zero_f\<rparr>; st = st\<lparr>x1 := x2 st\<rparr>;
          st = st\<lparr>y_unsat_1 := zero_f\<rparr>; st = st\<lparr>y_unsat_2 := zero_f\<rparr>;
          st = st\<lparr>y_sat_1 := zero_f\<rparr>; st = st\<lparr>y_sat_2 := zero_f\<rparr>
      in st)"

text \<open>The constructor stores the limit and resets.\<close>

definition DeltaPid2TapAw_new :: "fp \<Rightarrow> DeltaPid2TapAw" where
  "DeltaPid2TapAw_new y_sat_limit =
     reset \<lparr>YSAT_lim = y_sat_limit, dy1 = zero_f, w1 = zero_f, w2 = zero_f, x1 = zero_f,
            x2 = zero_f, y_unsat_1 = zero_f, y_unsat_2 = zero_f, y_sat_1 = zero_f,
            y_sat_2 = zero_f\<rparr>"

text \<open>The state update that ends \<^verbatim>\<open>step\<close> in all three sources, assignment by assignment.\<close>

definition shift_history :: "DeltaPid2TapAw \<Rightarrow> fp \<Rightarrow> fp \<Rightarrow> fp \<Rightarrow> fp \<Rightarrow> fp \<Rightarrow> DeltaPid2TapAw" where
  "shift_history st dy w x y_unsat y_sat =
     (let st = st\<lparr>dy1 := dy\<rparr>;
          st = st\<lparr>w2 := w1 st\<rparr>; st = st\<lparr>w1 := w\<rparr>;
          st = st\<lparr>x2 := x1 st\<rparr>; st = st\<lparr>x1 := x\<rparr>;
          st = st\<lparr>y_unsat_2 := y_unsat_1 st\<rparr>; st = st\<lparr>y_unsat_1 := y_unsat\<rparr>;
          st = st\<lparr>y_sat_2 := y_sat_1 st\<rparr>; st = st\<lparr>y_sat_1 := y_sat\<rparr>
      in st)"

text \<open>\<^verbatim>\<open>step\<close> of \<^verbatim>\<open>PID_MY_DIGIT.cpp\<close> and \<^verbatim>\<open>pid_last_compare.cpp\<close> (the two are the same).\<close>

definition step :: "DeltaPid2TapAw \<Rightarrow> fp \<Rightarrow> fp \<Rightarrow> fp \<times> DeltaPid2TapAw" where
  "step st w x =
     (let e_sat_1 = add_rn (y_sat_1 st) (fneg (y_unsat_1 st));
          e_sat_2 = add_rn (y_sat_2 st) (fneg (y_unsat_2 st));
          acc = zero_f;
          acc = add_rn acc (mul_rn C0 (dy1 st));
          acc = add_rn acc (mul_rn C1 w);
          acc = add_rn acc (mul_rn C2 (w1 st));
          acc = add_rn acc (mul_rn C3 (w2 st));
          acc = add_rn acc (mul_rn C4 x);
          acc = add_rn acc (mul_rn C5 (x1 st));
          acc = add_rn acc (mul_rn C6 (x2 st));
          acc = add_rn acc (mul_rn C7A e_sat_1);
          acc = add_rn acc (mul_rn C7B e_sat_2);
          dy = acc;
          y_unsat = add_rn (y_unsat_1 st) dy;
          y_sat = clamp y_unsat (fneg (YSAT_lim st)) (YSAT_lim st)
      in (y_sat, shift_history st dy w x y_unsat y_sat))"

text \<open>\<^verbatim>\<open>step\<close> of \<^verbatim>\<open>pid_compare.cpp\<close>: plain operators, \<open>dy\<close> as one expression.\<close>

definition step_compare :: "DeltaPid2TapAw \<Rightarrow> fp \<Rightarrow> fp \<Rightarrow> fp \<times> DeltaPid2TapAw" where
  "step_compare st w x =
     (let e_sat_1 = fsub binary32 (y_sat_1 st) (y_unsat_1 st);
          e_sat_2 = fsub binary32 (y_sat_2 st) (y_unsat_2 st);
          dy = fadd binary32 (fadd binary32 (fadd binary32 (fadd binary32 (fadd binary32
                 (fadd binary32 (fadd binary32 (fadd binary32
                    (fmul binary32 C0 (dy1 st))
                    (fmul binary32 C1 w)) (fmul binary32 C2 (w1 st))) (fmul binary32 C3 (w2 st)))
                    (fmul binary32 C4 x)) (fmul binary32 C5 (x1 st))) (fmul binary32 C6 (x2 st)))
                    (fmul binary32 C7A e_sat_1)) (fmul binary32 C7B e_sat_2);
          y_unsat = fadd binary32 (y_unsat_1 st) dy;
          y_sat = clamp y_unsat (fneg (YSAT_lim st)) (YSAT_lim st)
      in (y_sat, shift_history st dy w x y_unsat y_sat))"

text \<open>Running a controller over a sequence of inputs \<open>(w, x)\<close>, collecting the outputs.\<close>

fun run_steps ::
  "(DeltaPid2TapAw \<Rightarrow> fp \<Rightarrow> fp \<Rightarrow> fp \<times> DeltaPid2TapAw) \<Rightarrow> DeltaPid2TapAw \<Rightarrow> (fp \<times> fp) list
     \<Rightarrow> fp list \<times> DeltaPid2TapAw" where
  "run_steps stp st [] = ([], st)"
| "run_steps stp st ((w, x) # ins) =
     (let (y, st') = stp st w x; (ys, st'') = run_steps stp st' ins in (y # ys, st''))"

text \<open>
  The step as the specification words it: the two saturation errors, the nine products
  summed in order, the accumulator, the clamp, and the histories shifted at once.
\<close>

definition spec_terms :: "DeltaPid2TapAw \<Rightarrow> fp \<Rightarrow> fp \<Rightarrow> fp list" where
  "spec_terms st w x =
     (let e_sat_1 = fsub binary32 (y_sat_1 st) (y_unsat_1 st);
          e_sat_2 = fsub binary32 (y_sat_2 st) (y_unsat_2 st)
      in [fmul binary32 C0 (dy1 st), fmul binary32 C1 w, fmul binary32 C2 (w1 st),
          fmul binary32 C3 (w2 st), fmul binary32 C4 x, fmul binary32 C5 (x1 st),
          fmul binary32 C6 (x2 st), fmul binary32 C7A e_sat_1, fmul binary32 C7B e_sat_2])"

definition spec_finish :: "DeltaPid2TapAw \<Rightarrow> fp \<Rightarrow> fp \<Rightarrow> fp \<Rightarrow> fp \<times> DeltaPid2TapAw" where
  "spec_finish st w x dy =
     (let y_unsat = fadd binary32 (y_unsat_1 st) dy;
          y_sat = clamp y_unsat (fneg (YSAT_lim st)) (YSAT_lim st)
      in (y_sat,
          st\<lparr>dy1 := dy, w2 := w1 st, w1 := w, x2 := x1 st, x1 := x,
             y_unsat_2 := y_unsat_1 st, y_unsat_1 := y_unsat,
             y_sat_2 := y_sat_1 st, y_sat_1 := y_sat\<rparr>))"

text \<open>Serial accumulation from a zero accumulator, and the sum written as one expression.\<close>

definition spec_step_accumulated :: "DeltaPid2TapAw \<Rightarrow> fp \<Rightarrow> fp \<Rightarrow> fp \<times> DeltaPid2TapAw" where
  "spec_step_accumulated st w x =
     spec_finish st w x (foldl (fadd binary32) zero_f (spec_terms st w x))"

definition spec_step_expression :: "DeltaPid2TapAw \<Rightarrow> fp \<Rightarrow> fp \<Rightarrow> fp \<times> DeltaPid2TapAw" where
  "spec_step_expression st w x =
     spec_finish st w x
       (foldl (fadd binary32) (hd (spec_terms st w x)) (tl (spec_terms st w x)))"

text \<open>Two data that are the same or are both zeros (of either sign).\<close>

definition eq_upto_zero_sign :: "fp \<Rightarrow> fp \<Rightarrow> bool" where
  "eq_upto_zero_sign a b = (a = b \<or> (is_zero a \<and> is_zero b))"

text \<open>A value within the saturation interval \<open>[-Y, +Y]\<close>.\<close>

definition in_sat_range :: "fp \<Rightarrow> fp \<Rightarrow> bool" where
  "in_sat_range Y v = (fle (fneg Y) v \<and> fle v Y)"

text \<open>A value that is within the interval or is a NaN.\<close>

definition sat_or_nan :: "fp \<Rightarrow> fp \<Rightarrow> bool" where
  "sat_or_nan Y v = (v = NaN \<or> in_sat_range Y v)"

text \<open>
  A saturation limit the controller can be built with: a \<^verbatim>\<open>float\<close> that is not negative
  (\<^verbatim>\<open>std::clamp\<close> requires \<open>-YSAT \<le> +YSAT\<close>).
\<close>

definition valid_limit :: "fp \<Rightarrow> bool" where
  "valid_limit Y = (is_fp binary32 Y \<and> fle zero_f Y)"

text \<open>
  The history fields are private, written by \<^verbatim>\<open>reset\<close> and \<^verbatim>\<open>step\<close> only.  What these leave
  behind is a consistent history: \<open>dy1\<close> is a \<^verbatim>\<open>float\<close>, the last accumulator is the one before
  it plus the last delta, \<open>y_unsat_1 = y_unsat_2 + dy1\<close>, and each stored saturated output is
  the clamp of the stored accumulator of the same age.
\<close>

definition history_consistent :: "DeltaPid2TapAw \<Rightarrow> bool" where
  "history_consistent st =
     (valid_limit (YSAT_lim st) \<and> is_fp binary32 (dy1 st)
      \<and> y_unsat_1 st = add_rn (y_unsat_2 st) (dy1 st)
      \<and> y_sat_1 st = clamp (y_unsat_1 st) (fneg (YSAT_lim st)) (YSAT_lim st)
      \<and> y_sat_2 st = clamp (y_unsat_2 st) (fneg (YSAT_lim st)) (YSAT_lim st))"

section \<open>The encoder \<^verbatim>\<open>EncoderFloor\<close>\<close>

record EncoderFloor =
  Ts :: fp
  rad_per_cnt :: fp
  int2radfac :: fp
  theta_rad :: fp
  C_prev :: int

definition EncoderFloor_new :: "fp \<Rightarrow> EncoderFloor" where
  "EncoderFloor_new Ts_arg =
     \<lparr>Ts = Ts_arg, rad_per_cnt = mul_rn INT2RADS Ts_arg, int2radfac = INT2RADS,
      theta_rad = zero_f, C_prev = 0\<rparr>"

text \<open>
  \<^verbatim>\<open>sample\<close> of \<^verbatim>\<open>PID_MY_DIGIT.cpp\<close> and \<^verbatim>\<open>pid_last_compare.cpp\<close> (the two are the same).
  It returns \<open>spdcnt\<close> and \<open>x_meas\<close> with the new state, or \<open>None\<close> where the conversion
  to \<^verbatim>\<open>long\<close> or the subtraction is undefined.
\<close>

definition sample :: "EncoderFloor \<Rightarrow> fp \<Rightarrow> ((int \<times> fp) \<times> EncoderFloor) option" where
  "sample enc x_true =
     (let enc = enc\<lparr>theta_rad := ffma binary32 x_true (Ts enc) (theta_rad enc)\<rparr>;
          C_real = fdiv binary32 (theta_rad enc) (rad_per_cnt enc)
      in case long_of_fp (ffloor C_real) of
           None \<Rightarrow> None
         | Some C_now \<Rightarrow>
             (case long_sub C_now (C_prev enc) of
                None \<Rightarrow> None
              | Some d \<Rightarrow>
                  (let spdcnt = int_of_long d;
                       enc = enc\<lparr>C_prev := C_now\<rparr>;
                       x_meas = mul_rn (f32_of_int spdcnt) (int2radfac enc)
                   in Some ((spdcnt, x_meas), enc))))"

text \<open>\<^verbatim>\<open>sample\<close> of \<^verbatim>\<open>pid_compare.cpp\<close>: \<^verbatim>\<open>theta_rad += x_true * Ts\<close>, plain operators.\<close>

definition sample_compare :: "EncoderFloor \<Rightarrow> fp \<Rightarrow> ((int \<times> fp) \<times> EncoderFloor) option" where
  "sample_compare enc x_true =
     (let enc = enc\<lparr>theta_rad := fadd binary32 (theta_rad enc) (fmul binary32 x_true (Ts enc))\<rparr>;
          C_real = fdiv binary32 (theta_rad enc) (rad_per_cnt enc)
      in case long_of_fp (ffloor C_real) of
           None \<Rightarrow> None
         | Some C_now \<Rightarrow>
             (case long_sub C_now (C_prev enc) of
                None \<Rightarrow> None
              | Some d \<Rightarrow>
                  (let spdcnt = int_of_long d;
                       enc = enc\<lparr>C_prev := C_now\<rparr>;
                       x_meas = fmul binary32 (f32_of_int spdcnt) (int2radfac enc)
                   in Some ((spdcnt, x_meas), enc))))"

text \<open>
  A sequence of \<^verbatim>\<open>sample\<close> calls on the true velocities \<open>xs\<close>: the emitted counts and the
  final state.  The first argument is the \<^verbatim>\<open>sample\<close> of one of the sources.
\<close>

fun run_samples ::
  "(EncoderFloor \<Rightarrow> fp \<Rightarrow> ((int \<times> fp) \<times> EncoderFloor) option) \<Rightarrow> EncoderFloor \<Rightarrow> fp list
     \<Rightarrow> (int list \<times> EncoderFloor) option" where
  "run_samples smp enc [] = Some ([], enc)"
| "run_samples smp enc (x_true # xs) =
     (case smp enc x_true of
        None \<Rightarrow> None
      | Some ((spdcnt, x_meas), enc') \<Rightarrow>
          (case run_samples smp enc' xs of
             None \<Rightarrow> None
           | Some (cnts, enc'') \<Rightarrow> Some (spdcnt # cnts, enc'')))"

definition fits_int :: "int \<Rightarrow> bool" where
  "fits_int d = (- (2 ^ 31) \<le> d \<and> d < 2 ^ 31)"

text \<open>
  Every call of the sequence is defined and every difference \<open>C_now - C_prev\<close> along it
  fits \<^verbatim>\<open>int\<close> (\<open>C_now\<close> is the \<open>C_prev\<close> of the state the call leaves).
\<close>

fun deltas_fit ::
  "(EncoderFloor \<Rightarrow> fp \<Rightarrow> ((int \<times> fp) \<times> EncoderFloor) option) \<Rightarrow> EncoderFloor \<Rightarrow> fp list
     \<Rightarrow> bool" where
  "deltas_fit smp enc [] = True"
| "deltas_fit smp enc (x_true # xs) =
     (case smp enc x_true of
        None \<Rightarrow> False
      | Some (r, enc') \<Rightarrow> fits_int (C_prev enc' - C_prev enc) \<and> deltas_fit smp enc' xs)"

text \<open>The count that the angle of a state stands for: \<open>(long)std::floor(theta_rad / rad_per_cnt)\<close>.\<close>

definition floor_count :: "EncoderFloor \<Rightarrow> int option" where
  "floor_count enc = long_of_fp (ffloor (fdiv binary32 (theta_rad enc) (rad_per_cnt enc)))"

section \<open>The coefficient derivation of the driver (\<^verbatim>\<open>app.c\<close>)\<close>

text \<open>A \<^verbatim>\<open>double\<close> literal, and \<^verbatim>\<open>Ts_sec\<close>, which is \<^verbatim>\<open>(1.0/(double)(GATE_HZ))\<close> with \<^verbatim>\<open>GATE_HZ\<close> 200.\<close>

definition f64_lit :: "rat \<Rightarrow> fp" where
  "f64_lit q = round_signed binary64 False q"

definition Ts_sec :: fp where
  "Ts_sec = fdiv binary64 (f64_lit 1) (f64_lit 200)"

definition compute_time_constants :: "fp \<Rightarrow> fp \<Rightarrow> fp \<Rightarrow> fp \<Rightarrow> fp \<times> fp \<times> fp" where
  "compute_time_constants Kp Ki Kd N =
     (let Ti = (if flt (f64_lit 0) Ki \<and> flt (f64_lit 0) Kp
                then fdiv binary64 Kp Ki else f64_lit (10 ^ 30));
          Td = (if flt (f64_lit 0) Kp then fdiv binary64 Kd Kp else f64_lit 0);
          a = (if flt (f64_lit 0) N then fdiv binary64 (f64_lit 1) N else f64_lit 0)
      in (Ti, Td, a))"

text \<open>The \<^verbatim>\<open>double\<close> locals of \<^verbatim>\<open>compute_coeffs\<close>, in the order the function computes them.\<close>

record coeff_locals =
  l_Ti :: fp
  l_Td :: fp
  l_a :: fp
  l_den :: fp
  l_Ts_over_Ti :: fp
  l_C0 :: fp
  l_C1 :: fp
  l_C2 :: fp
  l_C3 :: fp
  l_C4 :: fp
  l_C5 :: fp
  l_C6 :: fp
  l_C7A :: fp
  l_C7B :: fp

definition compute_locals :: "fp \<Rightarrow> fp \<Rightarrow> fp \<Rightarrow> fp \<Rightarrow> fp \<Rightarrow> fp \<Rightarrow> fp \<Rightarrow> coeff_locals" where
  "compute_locals Kp Ki Kd N b c Kb =
     (let ts = Ts_sec;
          (Ti, Td, a) = compute_time_constants Kp Ki Kd N;
          den = fadd binary64 ts (fmul binary64 a Td);
          Ts_over_Ti = (if flt Ti (f64_lit (10 ^ 20)) then fdiv binary64 ts Ti else f64_lit 0);
          k0 = (if flt (f64_lit 0) den then fdiv binary64 (fmul binary64 a Td) den
                else f64_lit 0);
          k1 = fmul binary64 Kp
                 (fadd binary64 (fadd binary64 b Ts_over_Ti)
                    (fdiv binary64 (fmul binary64 Td c) den));
          k2 = fdiv binary64
                 (fmul binary64 (fneg Kp)
                    (fadd binary64
                       (fadd binary64
                          (fmul binary64 b
                             (fadd binary64 ts (fmul binary64 (fmul binary64 (f64_lit 2) a) Td)))
                          (fmul binary64 (fmul binary64 a Td) Ts_over_Ti))
                       (fmul binary64 (fmul binary64 (f64_lit 2) Td) c)))
                 den;
          k3 = fdiv binary64
                 (fmul binary64 (fmul binary64 Kp Td) (fadd binary64 (fmul binary64 a b) c)) den;
          k4 = fmul binary64 (fneg Kp)
                 (fadd binary64 (fadd binary64 (f64_lit 1) Ts_over_Ti) (fdiv binary64 Td den));
          k5 = fdiv binary64
                 (fmul binary64 Kp
                    (fadd binary64
                       (fadd binary64
                          (fadd binary64 ts (fmul binary64 (fmul binary64 (f64_lit 2) a) Td))
                          (fmul binary64 (fmul binary64 a Td) Ts_over_Ti))
                       (fmul binary64 (f64_lit 2) Td)))
                 den;
          k6 = fdiv binary64
                 (fmul binary64 (fneg Kp) (fmul binary64 Td (fadd binary64 a (f64_lit 1)))) den;
          k7a = fmul binary64 (fmul binary64 Ki Kb) ts;
          k7b = fmul binary64 (fneg k7a) k0
      in \<lparr>l_Ti = Ti, l_Td = Td, l_a = a, l_den = den, l_Ts_over_Ti = Ts_over_Ti,
          l_C0 = k0, l_C1 = k1, l_C2 = k2, l_C3 = k3, l_C4 = k4, l_C5 = k5, l_C6 = k6,
          l_C7A = k7a, l_C7B = k7b\<rparr>)"

text \<open>The nine outputs of \<^verbatim>\<open>compute_coeffs\<close>: each local cast to \<^verbatim>\<open>float\<close>.\<close>

record coeffs =
  a0 :: fp
  c1 :: fp
  c2 :: fp
  c3 :: fp
  c4 :: fp
  c5 :: fp
  c6 :: fp
  c7a :: fp
  c7b :: fp

definition compute_coeffs :: "fp \<Rightarrow> fp \<Rightarrow> fp \<Rightarrow> fp \<Rightarrow> fp \<Rightarrow> fp \<Rightarrow> fp \<Rightarrow> coeffs" where
  "compute_coeffs Kp Ki Kd N b c Kb =
     (let L = compute_locals Kp Ki Kd N b c Kb
      in \<lparr>a0 = f32_of_f64 (l_C0 L),
          c1 = f32_of_f64 (l_C1 L), c2 = f32_of_f64 (l_C2 L), c3 = f32_of_f64 (l_C3 L),
          c4 = f32_of_f64 (l_C4 L), c5 = f32_of_f64 (l_C5 L), c6 = f32_of_f64 (l_C6 L),
          c7a = f32_of_f64 (l_C7A L), c7b = f32_of_f64 (l_C7B L)\<rparr>)"

definition coeff_list :: "coeffs \<Rightarrow> fp list" where
  "coeff_list k = [a0 k, c1 k, c2 k, c3 k, c4 k, c5 k, c6 k, c7a k, c7b k]"

text \<open>
  Ranges of tuning values: a finite datum of magnitude at most \<open>2 ^ k\<close>; one that is moreover
  not negative; a positive one between \<open>2 ^ k\<close> and its reciprocal.
\<close>

fun mag_within :: "nat \<Rightarrow> fp \<Rightarrow> bool" where
  "mag_within k (Num s m) = (0 \<le> m \<and> m \<le> 2 ^ k)"
| "mag_within k x = False"





text \<open>Bounds used in the analysis of the derivation: magnitude at most \<open>2 ^ k\<close> as long
  as \<open>k\<close> is an exponent of the \<^verbatim>\<open>double\<close> format; magnitude at least \<open>2 ^ - l\<close>; value not negative.\<close>

definition bnd :: "nat \<Rightarrow> fp \<Rightarrow> bool" where
  "bnd k x = (if k < 1024 then mag_within k x else True)"



section \<open>The validation harnesses\<close>

subsection \<open>Comparison against the golden trace (\<^verbatim>\<open>pid_last_compare.cpp\<close>)\<close>

record cmp_acc =
  pass :: int
  fail :: int
  max_err :: fp
  max_i :: int

text \<open>The body of the comparison loop at index \<open>i\<close>; \<open>tol\<close> is \<^verbatim>\<open>1e-3f\<close>.\<close>

definition tol :: fp where
  "tol = f32_lit (1 / 1000)"

definition compare_at :: "fp list \<Rightarrow> fp list \<Rightarrow> cmp_acc \<Rightarrow> nat \<Rightarrow> cmp_acc" where
  "compare_at y_sim y_ref acc i =
     (let err = fabs (fsub binary32 (y_sim ! i) (y_ref ! i)) in
      if fle err tol then acc\<lparr>pass := pass acc + 1\<rparr>
      else (let acc = acc\<lparr>fail := fail acc + 1\<rparr> in
            if flt (max_err acc) err then acc\<lparr>max_err := err, max_i := int i\<rparr> else acc))"

definition golden_compare :: "fp list \<Rightarrow> fp list \<Rightarrow> cmp_acc" where
  "golden_compare y_sim y_ref =
     foldl (compare_at y_sim y_ref) \<lparr>pass = 0, fail = 0, max_err = zero_f, max_i = - 1\<rparr>
       [0 ..< min (length y_ref) (length y_sim)]"

text \<open>
  The exit status of \<^verbatim>\<open>main\<close> once the simulated outputs \<open>y_sim\<close> are there; \<open>y_ref\<close> is
  what the trace file holds (empty when it cannot be read).
\<close>

definition golden_exit :: "fp list \<Rightarrow> fp list \<Rightarrow> int" where
  "golden_exit y_sim y_ref =
     (if y_ref = [] then 1 else (let acc = golden_compare y_sim y_ref in 0))"

text \<open>The closed loop that fills \<open>y_sim\<close>: encoder, controller, first-order plant.\<close>

fun sim_loop :: "nat \<Rightarrow> DeltaPid2TapAw \<Rightarrow> EncoderFloor \<Rightarrow> fp \<Rightarrow> fp list option" where
  "sim_loop 0 ctrl enc x_true = Some []"
| "sim_loop (Suc n) ctrl enc x_true =
     (case sample enc x_true of
        None \<Rightarrow> None
      | Some ((spdcnt, x_meas), enc') \<Rightarrow>
          (let (y, ctrl') = step ctrl W_TGT x_meas;
               x_true' = add_rn x_true
                           (mul_rn Ts_sim (add_rn (mul_rn Ku y) (fneg (mul_rn lam x_true))))
           in case sim_loop n ctrl' enc' x_true' of
                None \<Rightarrow> None
              | Some ys \<Rightarrow> Some (y # ys)))"

text \<open>\<^verbatim>\<open>main\<close>: \<^verbatim>\<open>STEPS\<close> is 100 and the loop runs for \<open>n = 0, \<dots>, STEPS\<close>.\<close>

definition main_last_compare :: "fp list \<Rightarrow> int option" where
  "main_last_compare y_ref =
     (case sim_loop 101 (DeltaPid2TapAw_new YSAT) (EncoderFloor_new Ts_sim) zero_f of
        None \<Rightarrow> None
      | Some y_sim \<Rightarrow> Some (golden_exit y_sim y_ref))"

subsection \<open>Comparison of the two controllers (\<^verbatim>\<open>pid_compare.cpp\<close>)\<close>

text \<open>\<^verbatim>\<open>std::max(a, b)\<close> is \<^verbatim>\<open>(a < b) ? b : a\<close>.\<close>

definition std_max :: "fp \<Rightarrow> fp \<Rightarrow> fp" where
  "std_max a b = (if flt a b then b else a)"

text \<open>The flag \<open>ok\<close> of one sample, from the outputs \<open>y_g\<close> and \<open>y_d\<close> of the two controllers.\<close>

definition sample_ok :: "fp \<Rightarrow> fp \<Rightarrow> bool" where
  "sample_ok y_g y_d =
     (let abs_err = fabs (fsub binary32 y_g y_d);
          denom = std_max (f32_lit (1 / 10 ^ 12)) (fabs y_d);
          rel_err = fdiv binary32 abs_err denom
      in fle abs_err (f32_lit (1 / 1000)) \<or> fle rel_err (f32_lit (1 / 1000)))"

fun mismatch_count :: "int \<Rightarrow> (fp \<times> fp) list \<Rightarrow> int" where
  "mismatch_count cnt [] = cnt"
| "mismatch_count cnt ((y_g, y_d) # ps) =
     mismatch_count (if \<not> sample_ok y_g y_d then cnt + 1 else cnt) ps"

definition compare_exit :: "(fp \<times> fp) list \<Rightarrow> int" where
  "compare_exit ps = (if mismatch_count 0 ps = 0 then 0 else 1)"

section \<open>Properties of the arithmetic\<close>

subsection \<open>Powers of two\<close>

lemma pow2_pos: "0 < (2::rat) powi k"
  by simp

lemma pow2_add: "(2::rat) powi (a + b) = 2 powi a * 2 powi b"
  by (simp add: power_int_add)

lemma pow2_diff: "(2::rat) powi (a - b) = 2 powi a / 2 powi b"
  by (simp add: power_int_diff)

lemma pow2_mono: "a \<le> b \<Longrightarrow> (2::rat) powi a \<le> 2 powi b"
  by (rule power_int_increasing) simp_all

lemma pow2_strict_mono: "a < b \<Longrightarrow> (2::rat) powi a < 2 powi b"
  by (rule power_int_strict_increasing) simp_all

lemma pow2_le_iff: "(2::rat) powi a \<le> 2 powi b \<longleftrightarrow> a \<le> b"
proof
  assume h: "(2::rat) powi a \<le> 2 powi b"
  show "a \<le> b"
  proof (rule ccontr)
    assume "\<not> a \<le> b"
    then have "(2::rat) powi b < 2 powi a" by (simp add: pow2_strict_mono)
    with h show False by simp
  qed
qed (rule pow2_mono)

lemma pow2_less_iff: "(2::rat) powi a < 2 powi b \<longleftrightarrow> a < b"
  using pow2_le_iff [of b a] by (simp add: not_le [symmetric])

lemma pow2_nat: "0 \<le> k \<Longrightarrow> (2::rat) powi k = of_int (2 ^ nat k)"
  by (simp add: power_int_nonneg_exp)

subsection \<open>The integer logarithm\<close>

lemma ilog2_bounds:
  assumes "0 < q"
  shows "2 powi ilog2 q \<le> q" and "q < 2 powi (ilog2 q + 1)"
proof -
  have "2 powi ilog2 q \<le> q \<and> q < 2 powi (ilog2 q + 1)"
  proof (cases "1 \<le> q")
    case True
    define n where "n = \<lfloor>q\<rfloor>"
    have n1: "1 \<le> n" using True by (simp add: n_def)
    then have npos: "0 < n" by simp
    have b1: "1 \<le> bitlen n" using npos by (simp add: bitlen_alt_def)
    from bitlen_bounds [OF npos]
    have lo: "2 ^ nat (bitlen n - 1) \<le> n" and hi: "n < 2 ^ nat (bitlen n)" by simp_all
    have il: "ilog2 q = bitlen n - 1" using True by (simp add: ilog2_def n_def)
    have "(2::rat) powi (bitlen n - 1) = of_int (2 ^ nat (bitlen n - 1))"
      using b1 by (simp add: pow2_nat)
    also have "\<dots> \<le> of_int n" using lo by (simp only: of_int_le_iff)
    also have "\<dots> \<le> q" by (simp add: n_def)
    finally have A: "2 powi ilog2 q \<le> q" by (simp add: il)
    have "q < of_int (n + 1)" using floor_correct [of q] by (simp add: n_def)
    also have "of_int (n + 1) \<le> (of_int (2 ^ nat (bitlen n)) :: rat)"
      using hi by (simp only: of_int_le_iff)
    also have "\<dots> = 2 powi (bitlen n)" using b1 by (simp add: pow2_nat)
    finally have B: "q < 2 powi (ilog2 q + 1)" by (simp add: il)
    from A B show ?thesis ..
  next
    case False
    define c where "c = \<lceil>1 / q\<rceil>"
    have x1: "1 < 1 / q" using False assms by simp
    then have c2: "2 \<le> c" unfolding c_def by (simp add: le_ceiling_iff) 
    then have cpos: "0 < c - 1" by simp
    define j where "j = bitlen (c - 1)"
    have j1: "1 \<le> j" using cpos by (simp add: j_def bitlen_alt_def)
    from bitlen_bounds [OF cpos]
    have lo: "2 ^ nat (j - 1) \<le> c - 1" and hi: "c - 1 < 2 ^ nat j" by (simp_all add: j_def)
    have il: "ilog2 q = - j" using False by (simp add: ilog2_def c_def j_def)
    have "1 / q \<le> of_int c" by (simp add: c_def)
    also have "of_int c \<le> (of_int (2 ^ nat j) :: rat)"
      using hi by (simp only: of_int_le_iff)
    also have "\<dots> = 2 powi j" using j1 by (simp add: pow2_nat)
    finally have "1 / q \<le> 2 powi j" .
    then have "1 \<le> q * 2 powi j" using assms by (simp add: field_simps)
    moreover have "(2::rat) powi (- j) * 2 powi j = 1"
      by (simp add: pow2_add [symmetric])
    ultimately have "2 powi (- j) * 2 powi j \<le> q * 2 powi j" by simp
    then have "2 powi (- j) \<le> q"
      using mult_le_cancel_right_pos [of "2 powi j" "2 powi (- j)" q] by simp
    then have A: "2 powi ilog2 q \<le> q" by (simp add: il)
    have "(2::rat) powi (j - 1) = of_int (2 ^ nat (j - 1))" using j1 by (simp add: pow2_nat)
    also have "\<dots> \<le> of_int (c - 1)" using lo by (simp only: of_int_le_iff)
    also have "of_int (c - 1) < 1 / q" unfolding c_def by linarith
    finally have "2 powi (j - 1) < 1 / q" .
    then have "q * 2 powi (j - 1) < 1" using assms by (simp add: field_simps)
    moreover have "(2::rat) powi (- j + 1) * 2 powi (j - 1) = 1"
      by (simp add: pow2_add [symmetric])
    ultimately have "q * 2 powi (j - 1) < 2 powi (- j + 1) * 2 powi (j - 1)" by simp
    then have "q < 2 powi (- j + 1)"
      using mult_less_cancel_right_pos [of "2 powi (j - 1)" q "2 powi (- j + 1)"] by simp
    then have B: "q < 2 powi (ilog2 q + 1)" by (simp add: il)
    from A B show ?thesis ..
  qed
  then show "2 powi ilog2 q \<le> q" and "q < 2 powi (ilog2 q + 1)" by simp_all
qed

lemma ilog2_unique:
  assumes "2 powi k \<le> q" and "q < 2 powi (k + 1)"
  shows "ilog2 q = k"
proof -
  have qpos: "0 < q" using assms(1) pow2_pos [of k] by linarith
  note b = ilog2_bounds [OF qpos]
  have "2 powi k < (2::rat) powi (ilog2 q + 1)" using assms(1) b(2) by linarith
  then have 1: "k < ilog2 q + 1" by (simp only: pow2_less_iff)
  have "2 powi ilog2 q < (2::rat) powi (k + 1)" using assms(2) b(1) by linarith
  then have 2: "ilog2 q < k + 1" by (simp only: pow2_less_iff)
  from 1 2 show ?thesis by simp
qed

lemma ilog2_le: "0 < q \<Longrightarrow> q < 2 powi k \<Longrightarrow> ilog2 q < k"
  using ilog2_bounds(1) [of q] pow2_less_iff [of "ilog2 q" k] by linarith

lemma ilog2_ge: "2 powi k \<le> q \<Longrightarrow> k \<le> ilog2 q"
proof -
  assume h: "2 powi k \<le> q"
  then have qpos: "0 < q" using pow2_pos [of k] by linarith
  have "2 powi k < (2::rat) powi (ilog2 q + 1)" using h ilog2_bounds(2) [OF qpos] by linarith
  then show ?thesis by (simp only: pow2_less_iff)
qed

subsection \<open>Rounding to an integer\<close>

lemma rne_of_int: "rne (of_int n) = n"
  by (simp add: rne_def)

lemma rne_zero: "rne 0 = 0"
  using rne_of_int [of 0] by simp

lemma rne_cases: "rne q = \<lfloor>q\<rfloor> \<or> rne q = \<lfloor>q\<rfloor> + 1"
  by (simp add: rne_def Let_def)

lemma rne_ge: "of_int n \<le> q \<Longrightarrow> n \<le> rne q"
proof -
  assume "of_int n \<le> q"
  then have "n \<le> \<lfloor>q\<rfloor>" by (simp add: le_floor_iff)
  then show ?thesis using rne_cases [of q] by linarith
qed

lemma rne_le: "q \<le> of_int n \<Longrightarrow> rne q \<le> n"
proof (cases "q = of_int n")
  case True
  then show ?thesis by (simp add: rne_of_int)
next
  case False
  assume "q \<le> of_int n"
  with False have "q < of_int n" by simp
  then have "\<lfloor>q\<rfloor> < n" by (simp add: floor_less_iff)
  then show ?thesis using rne_cases [of q] by linarith
qed

lemma rne_nonneg: "0 \<le> q \<Longrightarrow> 0 \<le> rne q"
  using rne_ge [of 0 q] by simp

subsection \<open>Rounding a magnitude\<close>

lemma round_mag_alt:
  "round_mag F q = of_int (rne (q / 2 powi ulp_exp F q)) * 2 powi ulp_exp F q"
  by (simp add: round_mag_def Let_def)

lemma round_mag_zero: "round_mag F 0 = 0"
  by (simp add: round_mag_alt rne_zero)

lemma round_mag_nonneg: "0 \<le> q \<Longrightarrow> 0 \<le> round_mag F q"
  by (simp add: round_mag_alt rne_nonneg)

lemma round_mag_scaled:
  assumes "ulp_exp F q \<le> e" and "q = of_int m * 2 powi e"
  shows "round_mag F q = q"
proof -
  define u where "u = ulp_exp F q"
  define d where "d = e - u"
  have d0: "0 \<le> d" using assms(1) by (simp add: d_def u_def)
  have "(2::rat) powi e = 2 powi d * 2 powi u"
    by (simp add: d_def pow2_add [symmetric])
  then have q: "q = of_int (m * 2 ^ nat d) * 2 powi u"
    using d0 by (simp add: assms(2) pow2_nat)
  have "q / 2 powi u = of_int (m * 2 ^ nat d)"
    unfolding q by simp
  then have "rne (q / 2 powi u) = m * 2 ^ nat d"
    by (simp only: rne_of_int)
  then have "of_int (rne (q / 2 powi u)) * 2 powi u = q"
    unfolding q by simp
  then show ?thesis by (simp add: round_mag_alt u_def)
qed

lemma ulp_exp_le:
  assumes "0 < q" and "q < 2 powi (e + int (prec F))" and "emin F \<le> e"
  shows "ulp_exp F q \<le> e"
proof -
  have "ilog2 q < e + int (prec F)" using assms(1,2) by (rule ilog2_le)
  then show ?thesis using assms(3) by (simp add: ulp_exp_def)
qed

text \<open>A magnitude \<open>m * 2 powi e\<close> with at most \<open>prec\<close> bits in \<open>m\<close> is left unchanged.\<close>

lemma round_mag_representable:
  assumes "0 \<le> m" and "of_int m \<le> (2::rat) powi int (prec F)" and "emin F \<le> e"
    and "1 \<le> prec F"
  shows "round_mag F (of_int m * 2 powi e) = of_int m * 2 powi e"
proof (cases "m = 0")
  case True
  then show ?thesis by (simp add: round_mag_zero)
next
  case False
  with assms(1) have mpos: "0 < m" by simp
  define q :: rat where "q = of_int m * 2 powi e"
  have qpos: "0 < q" using mpos by (simp add: q_def)
  show ?thesis
  proof (cases "of_int m < (2::rat) powi int (prec F)")
    case True
    then have "q < 2 powi int (prec F) * 2 powi e" by (simp add: q_def)
    then have "q < 2 powi (e + int (prec F))" by (simp add: pow2_add mult.commute)
    then have "ulp_exp F q \<le> e" using qpos assms(3) by (intro ulp_exp_le)
    then have "round_mag F q = q" by (rule round_mag_scaled) (simp add: q_def)
    then show ?thesis by (simp add: q_def)
  next
    case False
    with assms(2) have m: "of_int m = (2::rat) powi int (prec F)" by simp
    have p: "int (prec F) = (int (prec F) - 1) + 1" by simp
    have "q = 2 powi (int (prec F) - 1 + (e + 1))"
      unfolding q_def m by (simp add: pow2_add [symmetric] del: power_int_of_nat)
    also have "\<dots> = 2 powi (int (prec F) - 1) * 2 powi (e + 1)" by (rule pow2_add)
    also have "\<dots> = of_int (2 ^ nat (int (prec F) - 1)) * 2 powi (e + 1)"
      using assms(4) by (simp add: pow2_nat)
    finally have q': "q = of_int (2 ^ nat (int (prec F) - 1)) * 2 powi (e + 1)" .
    have "q < 2 powi ((e + 1) + int (prec F))"
      unfolding q_def m by (simp add: pow2_add [symmetric] pow2_less_iff del: power_int_of_nat)
    then have "ulp_exp F q \<le> e + 1" using qpos assms(3) by (intro ulp_exp_le) simp_all
    then have "round_mag F q = q" using q' by (rule round_mag_scaled)
    then show ?thesis by (simp add: q_def)
  qed
qed

text \<open>What rounding yields is such a magnitude.\<close>

lemma round_mag_shape:
  assumes "0 \<le> q" and "1 \<le> prec F"
  shows "\<exists>m e. round_mag F q = of_int m * 2 powi e \<and> 0 \<le> m
           \<and> of_int m \<le> (2::rat) powi int (prec F) \<and> emin F \<le> e"
proof (cases "q = 0")
  case True
  have "round_mag F q = of_int 0 * 2 powi emin F" by (simp add: True round_mag_zero)
  moreover have "of_int 0 \<le> (2::rat) powi int (prec F)" by simp
  ultimately show ?thesis by blast
next
  case False
  with assms(1) have qpos: "0 < q" by simp
  define e where "e = ulp_exp F q"
  define m where "m = rne (q / 2 powi e)"
  have rm: "round_mag F q = of_int m * 2 powi e" by (simp add: round_mag_alt e_def m_def)
  have e1: "ilog2 q + 1 - int (prec F) \<le> e" and e2: "emin F \<le> e"
    by (simp_all add: e_def ulp_exp_def)
  have m0: "0 \<le> m" unfolding m_def using assms(1) by (intro rne_nonneg) simp
  have "q < 2 powi (ilog2 q + 1)" using qpos by (rule ilog2_bounds)
  also have "\<dots> \<le> 2 powi (int (prec F) + e)" using e1 by (intro pow2_mono) simp
  also have "\<dots> = 2 powi int (prec F) * 2 powi e" by (rule pow2_add)
  finally have "q / 2 powi e < 2 powi int (prec F)" by (simp add: field_simps)
  then have "q / 2 powi e \<le> of_int (2 ^ prec F)" by simp
  then have "m \<le> 2 ^ prec F" unfolding m_def by (rule rne_le)
  then have "rat_of_int m \<le> of_int (2 ^ prec F)" by (simp only: of_int_le_iff)
  then have "of_int m \<le> (2::rat) powi int (prec F)" by simp
  with rm m0 e2 show ?thesis by blast
qed

lemma round_mag_idem:
  assumes "0 \<le> q" and "1 \<le> prec F"
  shows "round_mag F (round_mag F q) = round_mag F q"
proof -
  from round_mag_shape [OF assms] obtain m e where
    "round_mag F q = of_int m * 2 powi e" "0 \<le> m" "of_int m \<le> (2::rat) powi int (prec F)"
    "emin F \<le> e" by blast
  then show ?thesis using round_mag_representable [of m F e] assms(2) by simp
qed



subsection \<open>Evaluation on numerals\<close>

lemma bitlen_pow_bounds:
  assumes "0 < a"
  shows "2 powi (bitlen a - 1) \<le> (of_int a :: rat)" and "(of_int a :: rat) < 2 powi bitlen a"
proof -
  have b1: "1 \<le> bitlen a" using assms by (simp add: bitlen_alt_def)
  from bitlen_bounds [OF assms]
  have lo: "2 ^ nat (bitlen a - 1) \<le> a" and hi: "a < 2 ^ nat (bitlen a)" by simp_all
  have "(2::rat) powi (bitlen a - 1) = of_int (2 ^ nat (bitlen a - 1))"
    using b1 by (simp add: pow2_nat)
  also have "\<dots> \<le> of_int a" using lo by (simp only: of_int_le_iff)
  finally show "2 powi (bitlen a - 1) \<le> (of_int a :: rat)" .
  have "(of_int a :: rat) < of_int (2 ^ nat (bitlen a))" using hi by (simp only: of_int_less_iff)
  also have "\<dots> = 2 powi bitlen a" using b1 by (simp add: pow2_nat)
  finally show "(of_int a :: rat) < 2 powi bitlen a" .
qed

lemma ilog2_quotient:
  assumes "0 < a" and "0 < b"
  shows "ilog2 (of_int a / of_int b) =
    (if 2 powi (bitlen a - bitlen b) \<le> (of_int a / of_int b :: rat)
     then bitlen a - bitlen b else bitlen a - bitlen b - 1)"
proof -
  define q :: rat where "q = of_int a / of_int b"
  define k where "k = bitlen a - bitlen b"
  have bpos: "0 < (of_int b :: rat)" using assms(2) by simp
  note A = bitlen_pow_bounds [OF assms(1)] and B = bitlen_pow_bounds [OF assms(2)]
  have "2 powi (k - 1) * (of_int b :: rat) \<le> 2 powi (k - 1) * 2 powi bitlen b"
    using B(2) by (simp add: mult_le_cancel_left_pos [OF pow2_pos])
  also have "\<dots> = 2 powi (bitlen a - 1)" by (simp add: k_def pow2_add [symmetric])
  also have "\<dots> \<le> of_int a" by (rule A(1))
  finally have lo: "2 powi (k - 1) \<le> q" using bpos by (simp add: q_def field_simps)
  have "(of_int a :: rat) < 2 powi bitlen a" by (rule A(2))
  also have "\<dots> = 2 powi (k + 1) * 2 powi (bitlen b - 1)" by (simp add: k_def pow2_add [symmetric])
  also have "\<dots> \<le> 2 powi (k + 1) * of_int b"
    using B(1) by (simp add: mult_le_cancel_left_pos [OF pow2_pos])
  finally have hi: "q < 2 powi (k + 1)" using bpos by (simp add: q_def field_simps)
  show ?thesis
  proof (cases "2 powi k \<le> q")
    case True
    then have "ilog2 q = k" using hi by (rule ilog2_unique)
    with True show ?thesis by (simp add: q_def k_def)
  next
    case False
    then have "q < 2 powi (k - 1 + 1)" by simp
    with lo have "ilog2 q = k - 1" by (rule ilog2_unique)
    with False show ?thesis by (simp add: q_def k_def)
  qed
qed

lemma ilog2_numeral_quotient:
  "ilog2 (numeral a / numeral b) =
    (if 2 powi (bitlen (numeral a) - bitlen (numeral b)) \<le> (numeral a / numeral b :: rat)
     then bitlen (numeral a) - bitlen (numeral b)
     else bitlen (numeral a) - bitlen (numeral b) - 1)"
  using ilog2_quotient [of "numeral a" "numeral b"] by simp

lemma ilog2_one_quotient:
  "ilog2 (1 / numeral b) =
    (if 2 powi (1 - bitlen (numeral b)) \<le> (1 / numeral b :: rat)
     then 1 - bitlen (numeral b) else - bitlen (numeral b))"
  using ilog2_quotient [of 1 "numeral b"] by (simp add: bitlen_alt_def)

lemma ilog2_numeral: "ilog2 (numeral a) = bitlen (numeral a) - 1"
  by (simp add: ilog2_def)

lemma ilog2_one: "ilog2 1 = 0"
  by (simp add: ilog2_def bitlen_alt_def)

lemma bitlen_One: "bitlen 1 = 1" "bitlen (numeral Num.One) = 1"
  by (simp_all add: compute_bitlen)

lemma bitlen_Bit0: "bitlen (numeral (Num.Bit0 n)) = bitlen (numeral n) + 1"
  by (subst compute_bitlen) simp

lemma bitlen_Bit1: "bitlen (numeral (Num.Bit1 n)) = bitlen (numeral n) + 1"
  by (subst compute_bitlen) simp

lemma floor_rat_numeral_div: "\<lfloor>(numeral a :: rat) / numeral b\<rfloor> = numeral a div numeral b"
  using floor_divide_of_int_eq [of "numeral a" "numeral b", where ?'a = rat] by simp

lemma floor_rat_one_div: "\<lfloor>(1 :: rat) / numeral b\<rfloor> = 1 div numeral b"
  using floor_divide_of_int_eq [of "1" "numeral b", where ?'a = rat] by simp

lemmas fp_eval = round_fin_def round_mag_alt round_signed_def ulp_exp_def rne_def
  binary32_def binary64_def sval_def Let_def
  ilog2_numeral_quotient ilog2_one_quotient ilog2_numeral ilog2_one
  bitlen_One bitlen_Bit0 bitlen_Bit1 floor_rat_numeral_div floor_rat_one_div

subsection \<open>Signs, zeros and comparisons\<close>

lemma round_fin_zero: "round_fin F s 0 = Num s 0"
  by (simp add: round_fin_def round_mag_zero not_le)

lemma round_signed_zero: "round_signed F z 0 = Num z 0"
  by (simp add: round_signed_def)

lemma fadd_fneg: "fadd F a (fneg b) = fsub F a b"
  by (cases a; cases b) (auto simp add: sval_def)

lemma fmul_zero_right: "fmul F (Num s m) (Num t 0) = Num (s \<noteq> t) 0"
  by (simp add: round_fin_zero)

lemma fmul_zero_left: "fmul F (Num s 0) (Num t m) = Num (s \<noteq> t) 0"
  by (simp add: round_fin_zero)

lemma fadd_zeros: "fadd F (Num s 0) (Num t 0) = Num (s \<and> t) 0"
  by (simp add: round_signed_zero sval_def)

subsection \<open>The constants\<close>

lemma const_vals:
  "C0 = Num False (8801163 / 536870912)" "C1 = Num False (14817637 / 134217728)" "C2 = Num True (7503431 / 67108864)" "C3 = Num False (15490049 / 8589934592)" "C4 = Num True (1370671 / 4194304)" "C5 = Num False (9136817 / 16777216)" "C6 = Num True (7321467 / 33554432)" "C7A = Num False (5153961 / 1073741824)" "C7B = Num True (5407467 / 68719476736)" "YSAT = Num False 12" "W_TGT = Num False 100" "INT2RADS = Num False (986287 / 1048576)"
  by (simp_all add: C0_def C1_def C2_def C3_def C4_def C5_def C6_def C7A_def C7B_def YSAT_def W_TGT_def INT2RADS_def f32_from_hex_def)

section \<open>The controller step\<close>

lemma shift_history_eq:
  "shift_history st dy w x y_unsat y_sat =
     st\<lparr>dy1 := dy, w2 := w1 st, w1 := w, x2 := x1 st, x1 := x,
        y_unsat_2 := y_unsat_1 st, y_unsat_1 := y_unsat,
        y_sat_2 := y_sat_1 st, y_sat_1 := y_sat\<rparr>"
  by (simp add: shift_history_def)

text \<open>
  Claim C1.  For every controller state and every inputs \<open>(w, x)\<close>, \<^verbatim>\<open>step\<close> computes the two
  saturation errors \<open>y_sat_1 - y_unsat_1\<close> and \<open>y_sat_2 - y_unsat_2\<close>, the sum \<open>dy\<close> of the nine
  products in the order \<open>a0 dy1, c1 w, c2 w1, c3 w2, c4 x, c5 x1, c6 x2, c7a e_sat_1,
  c7b e_sat_2\<close>, then \<open>y_unsat = y_unsat_1 + dy\<close> and \<open>y_sat = clamp y_unsat\<close>, shifts every
  history and returns \<open>y_sat\<close>: the step of \<^verbatim>\<open>PID_MY_DIGIT.cpp\<close> is the specified step with
  the sum accumulated from zero, the step of \<^verbatim>\<open>pid_compare.cpp\<close> the specified step with the
  sum as one expression.
\<close>

theorem step_follows_spec:
  "step st w x = spec_step_accumulated st w x
   \<and> step_compare st w x = spec_step_expression st w x"
  by (simp add: step_def step_compare_def spec_step_accumulated_def spec_step_expression_def
      spec_terms_def spec_finish_def shift_history_eq add_rn_def mul_rn_def fadd_fneg Let_def)

lemma reset_eq:
  "reset st = st\<lparr>dy1 := zero_f, w1 := zero_f, w2 := zero_f, x1 := zero_f, x2 := zero_f,
     y_unsat_1 := zero_f, y_unsat_2 := zero_f, y_sat_1 := zero_f, y_sat_2 := zero_f\<rparr>"
  by (simp add: reset_def)

lemma clamp_zero:
  assumes "\<not> flt Y zero_f"
  shows "clamp zero_f (fneg Y) Y = zero_f"
  using assms by (cases Y) (auto simp add: clamp_def zero_f_def sval_def)

text \<open>
  Claim C10.  After \<^verbatim>\<open>reset\<close> every history field is \<open>0\<close>, and a \<^verbatim>\<open>step\<close> with \<open>w = 0\<close> and
  \<open>x = 0\<close> made right after it returns exactly \<open>0\<close>, in both forms of the step.  The saturation
  limit is not negative: \<^verbatim>\<open>std::clamp\<close> requires \<open>-YSAT \<le> +YSAT\<close>.
\<close>

theorem reset_then_step_zero:
  "dy1 (reset st) = zero_f \<and> w1 (reset st) = zero_f \<and> w2 (reset st) = zero_f
   \<and> x1 (reset st) = zero_f \<and> x2 (reset st) = zero_f
   \<and> y_unsat_1 (reset st) = zero_f \<and> y_unsat_2 (reset st) = zero_f
   \<and> y_sat_1 (reset st) = zero_f \<and> y_sat_2 (reset st) = zero_f
   \<and> (\<not> flt (YSAT_lim st) zero_f \<longrightarrow>
        fst (step (reset st) zero_f zero_f) = zero_f
        \<and> fst (step_compare (reset st) zero_f zero_f) = zero_f)"
proof -
  have a: "fst (step (reset st) zero_f zero_f) = clamp zero_f (fneg (YSAT_lim st)) (YSAT_lim st)"
    by (simp add: step_def reset_eq add_rn_def mul_rn_def zero_f_def const_vals
        round_fin_zero round_signed_zero sval_def Let_def)
  have b: "fst (step_compare (reset st) zero_f zero_f)
      = clamp zero_f (fneg (YSAT_lim st)) (YSAT_lim st)"
    by (simp add: step_compare_def reset_eq zero_f_def const_vals
        round_fin_zero round_signed_zero sval_def Let_def)
  show ?thesis by (simp add: a b clamp_zero) (simp add: reset_eq)
qed

text \<open>Claim C10 for the controller of the three simulations, whose limit is \<open>12\<close>.\<close>

theorem reset_then_step_zero_witness:
  "\<not> flt (YSAT_lim (DeltaPid2TapAw_new YSAT)) zero_f
   \<and> y_sat_1 (reset (DeltaPid2TapAw_new YSAT)) = zero_f
   \<and> fst (step (reset (DeltaPid2TapAw_new YSAT)) zero_f zero_f) = zero_f
   \<and> fst (step_compare (reset (DeltaPid2TapAw_new YSAT)) zero_f zero_f) = zero_f"
proof -
  have h: "\<not> flt (YSAT_lim (DeltaPid2TapAw_new YSAT)) zero_f"
    by (simp add: DeltaPid2TapAw_new_def reset_eq zero_f_def const_vals sval_def)
  show ?thesis using h reset_then_step_zero [of "DeltaPid2TapAw_new YSAT"] by simp
qed

subsection \<open>Saturation\<close>

lemma clamp_in_range:
  assumes "fle zero_f Y" and "v \<noteq> NaN"
  shows "in_sat_range Y (clamp v (fneg Y) Y)"
  using assms by (cases Y; cases v) (auto simp add: clamp_def in_sat_range_def zero_f_def sval_def split: if_splits)

lemma clamp_above:
  assumes "fle zero_f Y" and "flt Y v"
  shows "clamp v (fneg Y) Y = Y"
  using assms by (cases Y; cases v) (auto simp add: clamp_def zero_f_def sval_def split: if_splits)

lemma clamp_below: "flt v (fneg Y) \<Longrightarrow> clamp v (fneg Y) Y = fneg Y"
  by (simp add: clamp_def)

lemma clamp_nan: "clamp NaN lo hi = NaN"
  by (simp add: clamp_def)

lemma step_result:
  "fst (step st w x) = clamp (y_unsat_1 (snd (step st w x))) (fneg (YSAT_lim st)) (YSAT_lim st)"
  "y_sat_1 (snd (step st w x)) = fst (step st w x)"
  "y_sat_2 (snd (step st w x)) = y_sat_1 st"
  "YSAT_lim (snd (step st w x)) = YSAT_lim st"
  by (simp_all add: step_def Let_def shift_history_eq)

lemma step_compare_result:
  "fst (step_compare st w x) =
     clamp (y_unsat_1 (snd (step_compare st w x))) (fneg (YSAT_lim st)) (YSAT_lim st)"
  "y_sat_1 (snd (step_compare st w x)) = fst (step_compare st w x)"
  "y_sat_2 (snd (step_compare st w x)) = y_sat_1 st"
  "YSAT_lim (snd (step_compare st w x)) = YSAT_lim st"
  by (simp_all add: step_compare_def Let_def shift_history_eq)

lemma saturated_result:
  assumes Y: "fle zero_f Y" and y: "y = clamp u (fneg Y) Y"
  shows "(u \<noteq> NaN \<longrightarrow> in_sat_range Y y) \<and> (flt Y u \<longrightarrow> y = Y)
    \<and> (flt u (fneg Y) \<longrightarrow> y = fneg Y) \<and> (u = NaN \<longrightarrow> y = NaN) \<and> sat_or_nan Y y"
proof -
  have "sat_or_nan Y y"
    unfolding y sat_or_nan_def using clamp_in_range [OF Y, of u] clamp_nan by (cases "u = NaN") auto
  then show ?thesis
    unfolding y using clamp_in_range [OF Y] clamp_above [OF Y] clamp_below clamp_nan by auto
qed

text \<open>
  Claim C4, amended.  For every controller state with a non-negative saturation limit and
  every inputs \<open>(w, x)\<close>, in either form of the step: if the unsaturated accumulator
  \<open>y_unsat\<close> that the step computes is not a NaN, the value returned lies in the closed interval
  \<open>[-YSAT, +YSAT]\<close>; it is exactly \<open>+YSAT\<close> when \<open>y_unsat\<close> exceeds \<open>+YSAT\<close> and exactly \<open>-YSAT\<close>
  when \<open>y_unsat\<close> is below \<open>-YSAT\<close>; if \<open>y_unsat\<close> is a NaN the value returned is a NaN.  The
  stored histories \<open>y_sat_1\<close> and \<open>y_sat_2\<close> are therefore within the interval or NaN, an
  invariant that the step preserves.
\<close>

theorem step_output_saturated:
  assumes "fle zero_f (YSAT_lim st)"
    and "stp = step \<or> stp = step_compare"
    and "y = fst (stp st w x)" and "st' = snd (stp st w x)"
  shows "(y_unsat_1 st' \<noteq> NaN \<longrightarrow> in_sat_range (YSAT_lim st) y)
    \<and> (flt (YSAT_lim st) (y_unsat_1 st') \<longrightarrow> y = YSAT_lim st)
    \<and> (flt (y_unsat_1 st') (fneg (YSAT_lim st)) \<longrightarrow> y = fneg (YSAT_lim st))
    \<and> (y_unsat_1 st' = NaN \<longrightarrow> y = NaN)
    \<and> YSAT_lim st' = YSAT_lim st \<and> y_sat_1 st' = y \<and> y_sat_2 st' = y_sat_1 st
    \<and> (sat_or_nan (YSAT_lim st) (y_sat_1 st) \<longrightarrow>
         sat_or_nan (YSAT_lim st') (y_sat_1 st') \<and> sat_or_nan (YSAT_lim st') (y_sat_2 st'))"
proof -
  have c: "y = clamp (y_unsat_1 st') (fneg (YSAT_lim st)) (YSAT_lim st)"
    and r: "YSAT_lim st' = YSAT_lim st" "y_sat_1 st' = y" "y_sat_2 st' = y_sat_1 st"
    using assms(2) unfolding assms(3,4) by (auto simp add: step_result step_compare_result)
  from saturated_result [OF assms(1) c] show ?thesis by (simp add: r)
qed

lemmas step_eval = step_def Let_def const_vals add_rn_def mul_rn_def shift_history_eq clamp_def
  zero_f_def fp_eval

lemma new_controller:
  "DeltaPid2TapAw_new Y = \<lparr>YSAT_lim = Y, dy1 = Num False 0, w1 = Num False 0, w2 = Num False 0,
     x1 = Num False 0, x2 = Num False 0, y_unsat_1 = Num False 0, y_unsat_2 = Num False 0,
     y_sat_1 = Num False 0, y_sat_2 = Num False 0\<rparr>"
  by (simp add: DeltaPid2TapAw_new_def reset_eq zero_f_def)

lemma first_step:
  "step (DeltaPid2TapAw_new YSAT) W_TGT zero_f =
    (Num False (11576279 / 1048576),
     \<lparr>YSAT_lim = Num False 12, dy1 = Num False (11576279 / 1048576), w1 = Num False 100,
        w2 = Num False 0, x1 = Num False 0, x2 = Num False 0,
        y_unsat_1 = Num False (11576279 / 1048576), y_unsat_2 = Num False 0,
        y_sat_1 = Num False (11576279 / 1048576), y_sat_2 = Num False 0\<rparr>)"
  by (simp add: new_controller step_eval)

text \<open>
  The amended claim C4 at the first step of the simulation: the fresh controller with limit
  \<open>12\<close>, setpoint \<open>100\<close> and measurement \<open>0\<close>.
\<close>

theorem step_output_saturated_witness:
  "fle zero_f (YSAT_lim (DeltaPid2TapAw_new YSAT))
   \<and> y_unsat_1 (snd (step (DeltaPid2TapAw_new YSAT) W_TGT zero_f)) \<noteq> NaN
   \<and> in_sat_range YSAT (fst (step (DeltaPid2TapAw_new YSAT) W_TGT zero_f))"
proof -
  have h: "fle zero_f (YSAT_lim (DeltaPid2TapAw_new YSAT))"
    by (simp add: new_controller zero_f_def const_vals sval_def)
  have n: "y_unsat_1 (snd (step (DeltaPid2TapAw_new YSAT) W_TGT zero_f)) \<noteq> NaN"
    by (simp add: first_step)
  have Y: "YSAT_lim (DeltaPid2TapAw_new YSAT) = YSAT" by (simp add: new_controller)
  from step_output_saturated [where stp = step and w = W_TGT and x = zero_f, OF h _ refl refl] n
  have "in_sat_range (YSAT_lim (DeltaPid2TapAw_new YSAT))
      (fst (step (DeltaPid2TapAw_new YSAT) W_TGT zero_f))" by simp
  with h n Y show ?thesis by simp
qed

lemma sat_trace_1:
  "step \<lparr>YSAT_lim = Num False 12, dy1 = Num False 0, w1 = Num False 0, w2 = Num False 0, x1 = Num False 0, x2 = Num False 0, y_unsat_1 = Num False 0, y_unsat_2 = Num False 0, y_sat_1 = Num False 0, y_sat_2 = Num False 0\<rparr>
     (Num False 0) (Num True 340282346638528859811704183484516925440) =
   (Num False 12, \<lparr>YSAT_lim = Num False 12, dy1 = Num False 111202032474182553180813599496193703936, w1 = Num False 0, w2 = Num False 0, x1 = Num True 340282346638528859811704183484516925440, x2 = Num False 0, y_unsat_1 = Num False 111202032474182553180813599496193703936, y_unsat_2 = Num False 0, y_sat_1 = Num False 12, y_sat_2 = Num False 0\<rparr>)"
  by (simp add: step_eval)

lemma sat_trace_2:
  "step \<lparr>YSAT_lim = Num False 12, dy1 = Num False 111202032474182553180813599496193703936, w1 = Num False 0, w2 = Num False 0, x1 = Num True 340282346638528859811704183484516925440, x2 = Num False 0, y_unsat_1 = Num False 111202032474182553180813599496193703936, y_unsat_2 = Num False 0, y_sat_1 = Num False 12, y_sat_2 = Num False 0\<rparr>
     (Num False 0) (Num False 340282346638528859811704183484516925440) =
   (Num True 12, \<lparr>YSAT_lim = Num False 12, dy1 = Num True 295229476398948684635739481042417876992, w1 = Num False 0, w2 = Num False 0, x1 = Num False 340282346638528859811704183484516925440, x2 = Num True 340282346638528859811704183484516925440, y_unsat_1 = Num True 184027454065970933280761093519849816064, y_unsat_2 = Num False 111202032474182553180813599496193703936, y_sat_1 = Num True 12, y_sat_2 = Num False 12\<rparr>)"
  by (simp add: step_eval)

lemma sat_trace_3:
  "step \<lparr>YSAT_lim = Num False 12, dy1 = Num True 295229476398948684635739481042417876992, w1 = Num False 0, w2 = Num False 0, x1 = Num False 340282346638528859811704183484516925440, x2 = Num True 340282346638528859811704183484516925440, y_unsat_1 = Num True 184027454065970933280761093519849816064, y_unsat_2 = Num False 111202032474182553180813599496193703936, y_sat_1 = Num True 12, y_sat_2 = Num False 12\<rparr>
     (Num False 0) (Num True 340282346638528859811704183484516925440) =
   (Num False 12, \<lparr>YSAT_lim = Num False 12, dy1 = Infty False, w1 = Num False 0, w2 = Num False 0, x1 = Num True 340282346638528859811704183484516925440, x2 = Num False 340282346638528859811704183484516925440, y_unsat_1 = Infty False, y_unsat_2 = Num True 184027454065970933280761093519849816064, y_sat_1 = Num False 12, y_sat_2 = Num True 12\<rparr>)"
  by (simp add: step_eval)

lemma sat_trace_4:
  "step \<lparr>YSAT_lim = Num False 12, dy1 = Infty False, w1 = Num False 0, w2 = Num False 0, x1 = Num True 340282346638528859811704183484516925440, x2 = Num False 340282346638528859811704183484516925440, y_unsat_1 = Infty False, y_unsat_2 = Num True 184027454065970933280761093519849816064, y_sat_1 = Num False 12, y_sat_2 = Num True 12\<rparr>
     (Num False 0) (Num False 0) =
   (NaN, \<lparr>YSAT_lim = Num False 12, dy1 = NaN, w1 = Num False 0, w2 = Num False 0, x1 = Num False 0, x2 = Num True 340282346638528859811704183484516925440, y_unsat_1 = NaN, y_unsat_2 = Infty False, y_sat_1 = NaN, y_sat_2 = Num False 12\<rparr>)"
  by (simp add: step_eval)

text \<open>
  Claim C4 as stated fails.  From the reset state with limit \<open>12\<close>, the finite measurements
  \<open>-FLT_MAX\<close>, \<open>+FLT_MAX\<close>, \<open>-FLT_MAX\<close> (setpoint \<open>0\<close>) drive the accumulator to \<open>+\<infinity>\<close>; the step
  after that, with \<open>w = 0\<close> and \<open>x = 0\<close>, computes \<open>\<infinity> - \<infinity>\<close> and returns a NaN, which is not
  in \<open>[-12, +12]\<close>.
\<close>

theorem step_output_counterexample:
  "fst (step (snd (run_steps step (DeltaPid2TapAw_new YSAT)
       [(zero_f, f32_from_hex 0xFF7FFFFF), (zero_f, f32_from_hex 0x7F7FFFFF),
        (zero_f, f32_from_hex 0xFF7FFFFF)])) zero_f zero_f) = NaN
   \<and> \<not> in_sat_range YSAT (fst (step (snd (run_steps step (DeltaPid2TapAw_new YSAT)
       [(zero_f, f32_from_hex 0xFF7FFFFF), (zero_f, f32_from_hex 0x7F7FFFFF),
        (zero_f, f32_from_hex 0xFF7FFFFF)])) zero_f zero_f))"
  by (simp add: new_controller const_vals zero_f_def f32_from_hex_def
      sat_trace_1 sat_trace_2 sat_trace_3 sat_trace_4 in_sat_range_def)

subsection \<open>The encoder\<close>

lemma int_of_long_fits: "fits_int d \<Longrightarrow> int_of_long d = d"
  by (simp add: fits_int_def int_of_long_def signed_take_bit_int_eq_self)

lemma int_of_long_mod: "int_of_long k = (k + 2 ^ 31) mod 2 ^ 32 - 2 ^ 31"
  by (simp add: int_of_long_def signed_take_bit_eq_take_bit_shift take_bit_eq_mod)

lemma long_sub_Some: "long_sub a b = Some d \<Longrightarrow> d = a - b"
  by (simp add: long_sub_def Let_def split: if_splits)

lemma sample_Some:
  assumes "sample enc x_true = Some ((spdcnt, x_meas), enc')"
  shows "theta_rad enc' = ffma binary32 x_true (Ts enc) (theta_rad enc)"
    and "spdcnt = int_of_long (C_prev enc' - C_prev enc)"
    and "floor_count enc' = Some (C_prev enc')"
  using assms
  by (auto simp add: sample_def Let_def floor_count_def dest: long_sub_Some
      split: option.splits)

lemma sample_compare_Some:
  assumes "sample_compare enc x_true = Some ((spdcnt, x_meas), enc')"
  shows "theta_rad enc' = fadd binary32 (theta_rad enc) (fmul binary32 x_true (Ts enc))"
    and "spdcnt = int_of_long (C_prev enc' - C_prev enc)"
    and "floor_count enc' = Some (C_prev enc')"
  using assms
  by (auto simp add: sample_compare_def Let_def floor_count_def dest: long_sub_Some
      split: option.splits)

lemma run_samples_conserved:
  assumes step: "\<And>enc x c xm enc'. smp enc x = Some ((c, xm), enc') \<Longrightarrow>
      c = int_of_long (C_prev enc' - C_prev enc) \<and> floor_count enc' = Some (C_prev enc')"
  shows "run_samples smp enc xs = Some (cnts, enc') \<Longrightarrow> deltas_fit smp enc xs \<Longrightarrow>
    sum_list cnts = C_prev enc' - C_prev enc
    \<and> (xs \<noteq> [] \<longrightarrow> floor_count enc' = Some (C_prev enc'))"
proof (induction xs arbitrary: enc cnts)
  case Nil
  then show ?case by simp
next
  case (Cons x xs)
  from Cons.prems(1) obtain c xm enc1 cs where
    s: "smp enc x = Some ((c, xm), enc1)" and
    r: "run_samples smp enc1 xs = Some (cs, enc')" and
    cn: "cnts = c # cs"
    by (auto split: option.splits)
  from Cons.prems(2) s have f: "fits_int (C_prev enc1 - C_prev enc)" and d: "deltas_fit smp enc1 xs"
    by simp_all
  from step [OF s] f have c: "c = C_prev enc1 - C_prev enc" and fc: "floor_count enc1 = Some (C_prev enc1)"
    by (simp_all add: int_of_long_fits)
  from Cons.IH [OF r d] have ih: "sum_list cs = C_prev enc' - C_prev enc1"
    and ih2: "xs \<noteq> [] \<longrightarrow> floor_count enc' = Some (C_prev enc')" by simp_all
  have "floor_count enc' = Some (C_prev enc')"
  proof (cases xs)
    case Nil
    with r fc show ?thesis by simp
  next
    case (Cons a list)
    with ih2 show ?thesis by simp
  qed
  then show ?case by (simp add: cn c ih)
qed

text \<open>
  Claim C5, amended.  For every sequence of \<^verbatim>\<open>sample\<close> calls (of either source) that are all
  defined and whose differences \<open>C_now - C_prev\<close> all fit \<^verbatim>\<open>int\<close>, the sum of the emitted
  \<open>spdcnt\<close> values is the final \<open>C_prev\<close> minus the initial one, and after the calls the stored
  \<open>C_prev\<close> is \<open>(long)floor(theta_rad / rad_per_cnt)\<close>, the division being that of \<^verbatim>\<open>float\<close>.
  For a fresh encoder the initial \<open>C_prev\<close> is \<open>0\<close>.
\<close>

theorem encoder_counts_conserved:
  assumes "smp = sample \<or> smp = sample_compare"
    and "run_samples smp enc xs = Some (cnts, enc')"
    and "deltas_fit smp enc xs"
  shows "sum_list cnts = C_prev enc' - C_prev enc
    \<and> (xs \<noteq> [] \<longrightarrow> floor_count enc' = Some (C_prev enc'))"
proof -
  have "\<And>enc x c xm enc'. smp enc x = Some ((c, xm), enc') \<Longrightarrow>
      c = int_of_long (C_prev enc' - C_prev enc) \<and> floor_count enc' = Some (C_prev enc')"
    using assms(1) sample_Some(2,3) sample_compare_Some(2,3) by blast
  from run_samples_conserved [of smp, OF this assms(2,3)] show ?thesis .
qed

lemma floor_rat_of_int_numeral: "\<lfloor>rat_of_int k\<rfloor> = k"
  by simp

lemmas enc_eval = sample_def sample_compare_def Let_def const_vals mul_rn_def f32_of_int_def
  long_sub_def int_of_long_mod zero_f_def f32_lit_def fp_eval

lemma new_encoder:
  "EncoderFloor_new Ts_sim =
     \<lparr>Ts = Num False (5368709 / 1073741824), rad_per_cnt = Num False (10099579 / 2147483648),
      int2radfac = Num False (986287 / 1048576), theta_rad = Num False 0, C_prev = 0\<rparr>"
  by (simp add: EncoderFloor_new_def Ts_sim_def enc_eval)

lemma enc_trace_1:
  "sample \<lparr>Ts = Num False (5368709 / 1073741824), rad_per_cnt = Num False (10099579 / 2147483648),
      int2radfac = Num False (986287 / 1048576), theta_rad = Num False 0, C_prev = 0\<rparr>
     (Num False 1) =
   Some ((1, Num False (986287 / 1048576)),
     \<lparr>Ts = Num False (5368709 / 1073741824), rad_per_cnt = Num False (10099579 / 2147483648),
      int2radfac = Num False (986287 / 1048576), theta_rad = Num False (5368709 / 1073741824),
      C_prev = 1\<rparr>)"
  by (simp add: enc_eval)

lemma enc_trace_2:
  "sample \<lparr>Ts = Num False (5368709 / 1073741824), rad_per_cnt = Num False (10099579 / 2147483648),
      int2radfac = Num False (986287 / 1048576), theta_rad = Num False (5368709 / 1073741824),
      C_prev = 1\<rparr>
     (Num False 5) =
   Some ((5, Num False (4931435 / 1048576)),
     \<lparr>Ts = Num False (5368709 / 1073741824), rad_per_cnt = Num False (10099579 / 2147483648),
      int2radfac = Num False (986287 / 1048576), theta_rad = Num False (16106127 / 536870912),
      C_prev = 6\<rparr>)"
  by (simp add: enc_eval)

lemma enc_trace_big:
  "sample \<lparr>Ts = Num False (5368709 / 1073741824), rad_per_cnt = Num False (10099579 / 2147483648),
      int2radfac = Num False (986287 / 1048576), theta_rad = Num False 0, C_prev = 0\<rparr>
     (Num False 10000000000) =
   Some ((2041615360, Num False 1920336384),
     \<lparr>Ts = Num False (5368709 / 1073741824), rad_per_cnt = Num False (10099579 / 2147483648),
      int2radfac = Num False (986287 / 1048576), theta_rad = Num False 50000000,
      C_prev = 10631549952\<rparr>)"
  by (simp add: enc_eval)

lemma enc_trace_c1:
  "sample_compare \<lparr>Ts = Num False (5368709 / 1073741824), rad_per_cnt = Num False (10099579 / 2147483648),
      int2radfac = Num False (986287 / 1048576), theta_rad = Num False 0, C_prev = 0\<rparr>
     (Num False 1) =
   Some ((1, Num False (986287 / 1048576)),
     \<lparr>Ts = Num False (5368709 / 1073741824), rad_per_cnt = Num False (10099579 / 2147483648),
      int2radfac = Num False (986287 / 1048576), theta_rad = Num False (5368709 / 1073741824), C_prev = 1\<rparr>)"
  by (simp add: enc_eval)

lemma enc_trace_c2:
  "sample_compare \<lparr>Ts = Num False (5368709 / 1073741824), rad_per_cnt = Num False (10099579 / 2147483648),
      int2radfac = Num False (986287 / 1048576), theta_rad = Num False (5368709 / 1073741824), C_prev = 1\<rparr>
     (Num False 5) =
   Some ((5, Num False (4931435 / 1048576)),
     \<lparr>Ts = Num False (5368709 / 1073741824), rad_per_cnt = Num False (10099579 / 2147483648),
      int2radfac = Num False (986287 / 1048576), theta_rad = Num False (8053063 / 268435456), C_prev = 6\<rparr>)"
  by (simp add: enc_eval)

lemma fresh_floor_count:
  "floor_count \<lparr>Ts = Num False (5368709 / 1073741824), rad_per_cnt = Num False (10099579 / 2147483648),
      int2radfac = Num False (986287 / 1048576), theta_rad = Num False 0, C_prev = 0\<rparr> = Some 0"
  by (simp add: floor_count_def fp_eval)

lemma lit_vals: "f32_lit 1 = Num False 1" "f32_lit 5 = Num False 5"
  "f32_lit 10000000000 = Num False 10000000000"
  by (simp_all add: f32_lit_def fp_eval)

text \<open>
  The amended claim C5 on a fresh encoder with \<open>Ts = 0.005\<close> and the velocities \<open>1\<close> and \<open>5\<close>.
\<close>

theorem encoder_counts_conserved_witness:
  "run_samples sample (EncoderFloor_new Ts_sim) [f32_lit 1, f32_lit 5] =
     Some ([1, 5], \<lparr>Ts = Num False (5368709 / 1073741824), rad_per_cnt = Num False (10099579 / 2147483648),
      int2radfac = Num False (986287 / 1048576), theta_rad = Num False (16106127 / 536870912), C_prev = 6\<rparr>)
   \<and> deltas_fit sample (EncoderFloor_new Ts_sim) [f32_lit 1, f32_lit 5]
   \<and> sum_list [1, 5] = (6::int) - 0
   \<and> floor_count \<lparr>Ts = Num False (5368709 / 1073741824), rad_per_cnt = Num False (10099579 / 2147483648),
      int2radfac = Num False (986287 / 1048576), theta_rad = Num False (16106127 / 536870912), C_prev = 6\<rparr> = Some 6"
proof -
  let ?e = "EncoderFloor_new Ts_sim"
  let ?e' = "\<lparr>Ts = Num False (5368709 / 1073741824), rad_per_cnt = Num False (10099579 / 2147483648),
      int2radfac = Num False (986287 / 1048576), theta_rad = Num False (16106127 / 536870912), C_prev = 6\<rparr>"
  have r: "run_samples sample ?e [f32_lit 1, f32_lit 5] = Some ([1, 5], ?e')"
    by (simp add: new_encoder lit_vals enc_trace_1 enc_trace_2)
  have d: "deltas_fit sample ?e [f32_lit 1, f32_lit 5]"
    by (simp add: new_encoder lit_vals enc_trace_1 enc_trace_2 fits_int_def)
  from encoder_counts_conserved [OF disjI1 [OF refl] r d] r d show ?thesis
    by (simp add: new_encoder)
qed

text \<open>
  Claim C5 as stated fails.  On a fresh encoder with \<open>Ts = 0.005\<close> one sample with the true
  velocity \<open>1e10\<close> moves the count from \<open>0\<close> to \<open>10631549952\<close>, which does not fit \<^verbatim>\<open>int\<close>: the
  emitted \<open>spdcnt\<close> is \<open>2041615360\<close>, the low 32 bits.
\<close>

theorem encoder_counts_counterexample:
  "run_samples sample (EncoderFloor_new Ts_sim) [f32_lit 10000000000] =
     Some ([2041615360], \<lparr>Ts = Num False (5368709 / 1073741824), rad_per_cnt = Num False (10099579 / 2147483648),
      int2radfac = Num False (986287 / 1048576), theta_rad = Num False (50000000), C_prev = 10631549952\<rparr>)
   \<and> floor_count (EncoderFloor_new Ts_sim) = Some 0
   \<and> floor_count \<lparr>Ts = Num False (5368709 / 1073741824), rad_per_cnt = Num False (10099579 / 2147483648),
      int2radfac = Num False (986287 / 1048576), theta_rad = Num False (50000000), C_prev = 10631549952\<rparr> = Some 10631549952
   \<and> sum_list [2041615360] \<noteq> (10631549952::int) - 0"
  by (simp add: new_encoder lit_vals enc_trace_big fresh_floor_count)
    (simp add: floor_count_def fp_eval)

text \<open>
  Claim C9, amended.  \<^verbatim>\<open>sample\<close> of \<^verbatim>\<open>PID_MY_DIGIT.cpp\<close> and \<^verbatim>\<open>pid_last_compare.cpp\<close> updates the
  angle with one fused multiply-add, \<open>theta_rad \<leftarrow> fma(x_true, Ts, theta_rad)\<close>; \<^verbatim>\<open>sample\<close> of
  \<^verbatim>\<open>pid_compare.cpp\<close> rounds the product \<open>x_true * Ts\<close> and then rounds the sum.
\<close>

theorem sample_integration:
  "(sample enc x_true = Some (r, enc') \<longrightarrow>
      theta_rad enc' = ffma binary32 x_true (Ts enc) (theta_rad enc))
   \<and> (sample_compare enc x_true = Some (r, enc') \<longrightarrow>
      theta_rad enc' = fadd binary32 (theta_rad enc) (fmul binary32 x_true (Ts enc)))"
  using sample_Some(1) [of enc x_true "fst r" "snd r" enc']
    sample_compare_Some(1) [of enc x_true "fst r" "snd r" enc'] by simp

text \<open>
  The amended claim C9 at the second sample (true velocity \<open>5\<close>) of an encoder with
  \<open>Ts = 0.005\<close> whose first sample had the true velocity \<open>1\<close>.
\<close>

theorem sample_integration_witness:
  "sample \<lparr>Ts = Num False (5368709 / 1073741824), rad_per_cnt = Num False (10099579 / 2147483648),
      int2radfac = Num False (986287 / 1048576), theta_rad = Num False (5368709 / 1073741824), C_prev = 1\<rparr> (f32_lit 5) = Some ((5, Num False (4931435 / 1048576)), \<lparr>Ts = Num False (5368709 / 1073741824), rad_per_cnt = Num False (10099579 / 2147483648),
      int2radfac = Num False (986287 / 1048576), theta_rad = Num False (16106127 / 536870912), C_prev = 6\<rparr>)
   \<and> theta_rad \<lparr>Ts = Num False (5368709 / 1073741824), rad_per_cnt = Num False (10099579 / 2147483648),
      int2radfac = Num False (986287 / 1048576), theta_rad = Num False (16106127 / 536870912), C_prev = 6\<rparr> = ffma binary32 (f32_lit 5) (Ts \<lparr>Ts = Num False (5368709 / 1073741824), rad_per_cnt = Num False (10099579 / 2147483648),
      int2radfac = Num False (986287 / 1048576), theta_rad = Num False (5368709 / 1073741824), C_prev = 1\<rparr>) (theta_rad \<lparr>Ts = Num False (5368709 / 1073741824), rad_per_cnt = Num False (10099579 / 2147483648),
      int2radfac = Num False (986287 / 1048576), theta_rad = Num False (5368709 / 1073741824), C_prev = 1\<rparr>)
   \<and> sample_compare \<lparr>Ts = Num False (5368709 / 1073741824), rad_per_cnt = Num False (10099579 / 2147483648),
      int2radfac = Num False (986287 / 1048576), theta_rad = Num False (5368709 / 1073741824), C_prev = 1\<rparr> (f32_lit 5) = Some ((5, Num False (4931435 / 1048576)), \<lparr>Ts = Num False (5368709 / 1073741824), rad_per_cnt = Num False (10099579 / 2147483648),
      int2radfac = Num False (986287 / 1048576), theta_rad = Num False (8053063 / 268435456), C_prev = 6\<rparr>)
   \<and> theta_rad \<lparr>Ts = Num False (5368709 / 1073741824), rad_per_cnt = Num False (10099579 / 2147483648),
      int2radfac = Num False (986287 / 1048576), theta_rad = Num False (8053063 / 268435456), C_prev = 6\<rparr> = fadd binary32 (theta_rad \<lparr>Ts = Num False (5368709 / 1073741824), rad_per_cnt = Num False (10099579 / 2147483648),
      int2radfac = Num False (986287 / 1048576), theta_rad = Num False (5368709 / 1073741824), C_prev = 1\<rparr>) (fmul binary32 (f32_lit 5) (Ts \<lparr>Ts = Num False (5368709 / 1073741824), rad_per_cnt = Num False (10099579 / 2147483648),
      int2radfac = Num False (986287 / 1048576), theta_rad = Num False (5368709 / 1073741824), C_prev = 1\<rparr>))"
proof -
  let ?e = "\<lparr>Ts = Num False (5368709 / 1073741824), rad_per_cnt = Num False (10099579 / 2147483648),
      int2radfac = Num False (986287 / 1048576), theta_rad = Num False (5368709 / 1073741824), C_prev = 1\<rparr>"
  have a: "sample ?e (f32_lit 5) = Some ((5, Num False (4931435 / 1048576)), \<lparr>Ts = Num False (5368709 / 1073741824), rad_per_cnt = Num False (10099579 / 2147483648),
      int2radfac = Num False (986287 / 1048576), theta_rad = Num False (16106127 / 536870912), C_prev = 6\<rparr>)"
    by (simp add: lit_vals enc_trace_2)
  have b: "sample_compare ?e (f32_lit 5) = Some ((5, Num False (4931435 / 1048576)), \<lparr>Ts = Num False (5368709 / 1073741824), rad_per_cnt = Num False (10099579 / 2147483648),
      int2radfac = Num False (986287 / 1048576), theta_rad = Num False (8053063 / 268435456), C_prev = 6\<rparr>)"
    by (simp add: lit_vals enc_trace_c2)
  from sample_integration [of ?e "f32_lit 5" "(5, Num False (4931435 / 1048576))" "\<lparr>Ts = Num False (5368709 / 1073741824), rad_per_cnt = Num False (10099579 / 2147483648),
      int2radfac = Num False (986287 / 1048576), theta_rad = Num False (16106127 / 536870912), C_prev = 6\<rparr>"] a
  have "theta_rad \<lparr>Ts = Num False (5368709 / 1073741824), rad_per_cnt = Num False (10099579 / 2147483648),
      int2radfac = Num False (986287 / 1048576), theta_rad = Num False (16106127 / 536870912), C_prev = 6\<rparr> = ffma binary32 (f32_lit 5) (Ts ?e) (theta_rad ?e)" by blast
  moreover
  from sample_integration [of ?e "f32_lit 5" "(5, Num False (4931435 / 1048576))" "\<lparr>Ts = Num False (5368709 / 1073741824), rad_per_cnt = Num False (10099579 / 2147483648),
      int2radfac = Num False (986287 / 1048576), theta_rad = Num False (8053063 / 268435456), C_prev = 6\<rparr>"] b
  have "theta_rad \<lparr>Ts = Num False (5368709 / 1073741824), rad_per_cnt = Num False (10099579 / 2147483648),
      int2radfac = Num False (986287 / 1048576), theta_rad = Num False (8053063 / 268435456), C_prev = 6\<rparr> = fadd binary32 (theta_rad ?e) (fmul binary32 (f32_lit 5) (Ts ?e))" by blast
  ultimately show ?thesis using a b by blast
qed

text \<open>
  Claim C9 as stated fails for the encoder of \<^verbatim>\<open>pid_compare.cpp\<close>: after the true velocities
  \<open>1\<close> and \<open>5\<close> on a fresh encoder with \<open>Ts = 0.005\<close> the stored angle is
  \<open>8053063 / 2^28\<close>, and the fused multiply-add gives \<open>16106127 / 2^29\<close>.
\<close>

theorem sample_integration_counterexample:
  "sample_compare (EncoderFloor_new Ts_sim) (f32_lit 1) = Some ((1, Num False (986287 / 1048576)), \<lparr>Ts = Num False (5368709 / 1073741824), rad_per_cnt = Num False (10099579 / 2147483648),
      int2radfac = Num False (986287 / 1048576), theta_rad = Num False (5368709 / 1073741824), C_prev = 1\<rparr>)
   \<and> sample_compare \<lparr>Ts = Num False (5368709 / 1073741824), rad_per_cnt = Num False (10099579 / 2147483648),
      int2radfac = Num False (986287 / 1048576), theta_rad = Num False (5368709 / 1073741824), C_prev = 1\<rparr> (f32_lit 5) = Some ((5, Num False (4931435 / 1048576)), \<lparr>Ts = Num False (5368709 / 1073741824), rad_per_cnt = Num False (10099579 / 2147483648),
      int2radfac = Num False (986287 / 1048576), theta_rad = Num False (8053063 / 268435456), C_prev = 6\<rparr>)
   \<and> theta_rad \<lparr>Ts = Num False (5368709 / 1073741824), rad_per_cnt = Num False (10099579 / 2147483648),
      int2radfac = Num False (986287 / 1048576), theta_rad = Num False (8053063 / 268435456), C_prev = 6\<rparr> \<noteq> ffma binary32 (f32_lit 5) (Ts \<lparr>Ts = Num False (5368709 / 1073741824), rad_per_cnt = Num False (10099579 / 2147483648),
      int2radfac = Num False (986287 / 1048576), theta_rad = Num False (5368709 / 1073741824), C_prev = 1\<rparr>) (theta_rad \<lparr>Ts = Num False (5368709 / 1073741824), rad_per_cnt = Num False (10099579 / 2147483648),
      int2radfac = Num False (986287 / 1048576), theta_rad = Num False (5368709 / 1073741824), C_prev = 1\<rparr>)"
  by (simp add: new_encoder lit_vals enc_trace_c1 enc_trace_c2) (simp add: fp_eval)

subsection \<open>The two forms of the step\<close>

lemma round_fin_idem:
  assumes "0 \<le> q" and "1 \<le> prec F" and "round_fin F s q = Num t v"
  shows "t = s" and "0 \<le> v" and "round_fin F s v = Num s v"
proof -
  from assms(3) have v: "v = round_mag F q" and ts: "t = s" and b: "\<not> 2 powi emax F \<le> v"
    by (auto simp add: round_fin_def Let_def split: if_splits)
  show "t = s" by (rule ts)
  show "0 \<le> v" unfolding v using assms(1) by (rule round_mag_nonneg)
  have "round_mag F v = v" unfolding v using assms(1,2) by (rule round_mag_idem)
  then show "round_fin F s v = Num s v" using b by (simp add: round_fin_def)
qed

text \<open>Rounding is monotone below a magnitude of the format.\<close>

lemma round_mag_le:
  assumes "0 \<le> q" and "q \<le> v" and "round_mag F v = v"
  shows "round_mag F q \<le> v"
proof (cases "q = 0")
  case True
  then show ?thesis using assms by (simp add: round_mag_zero)
next
  case False
  with assms(1) have qpos: "0 < q" by simp
  then have vpos: "0 < v" using assms(2) by linarith
  define e where "e = ulp_exp F q"
  define k where "k = ulp_exp F v"
  define n where "n = rne (v / 2 powi k)"
  have v: "v = of_int n * 2 powi k"
    using assms(3) by (simp add: round_mag_alt k_def n_def)
  have "2 powi ilog2 q \<le> q" using qpos by (rule ilog2_bounds)
  with assms(2) have "2 powi ilog2 q \<le> v" by linarith
  then have "ilog2 q \<le> ilog2 v" by (rule ilog2_ge)
  then have ek: "e \<le> k" by (simp add: e_def k_def ulp_exp_def)
  have "(2::rat) powi k = 2 powi (k - e) * 2 powi e" by (simp add: pow2_add [symmetric])
  also have "\<dots> = of_int (2 ^ nat (k - e)) * 2 powi e" using ek by (simp add: pow2_nat)
  finally have vv: "v = of_int (n * 2 ^ nat (k - e)) * 2 powi e" using v by simp
  then have v': "v / 2 powi e = of_int (n * 2 ^ nat (k - e))" by simp
  have "q / 2 powi e \<le> v / 2 powi e"
    using assms(2) pow2_pos [of e] by (simp add: divide_right_mono)
  then have "q / 2 powi e \<le> of_int (n * 2 ^ nat (k - e))" by (simp only: v')
  then have "rne (q / 2 powi e) \<le> n * 2 ^ nat (k - e)" by (rule rne_le)
  then have "rat_of_int (rne (q / 2 powi e)) \<le> of_int (n * 2 ^ nat (k - e))"
    by (simp only: of_int_le_iff)
  then have "of_int (rne (q / 2 powi e)) * 2 powi e \<le> of_int (n * 2 ^ nat (k - e)) * (2::rat) powi e"
    by (simp only: mult_le_cancel_right_pos [OF pow2_pos])
  also have "\<dots> = v" by (rule vv [symmetric])
  finally show ?thesis by (simp add: round_mag_alt e_def)
qed

text \<open>The result of an addition is a datum of the format.\<close>

lemma is_fp_round_signed:
  assumes "1 \<le> prec F"
  shows "is_fp F (round_signed F z r)"
proof (cases "r = 0")
  case True
  then show ?thesis by (simp add: round_signed_def round_fin_zero)
next
  case False
  show ?thesis
  proof (cases "round_fin F (r < 0) \<bar>r\<bar>")
    case (Num t v)
    from round_fin_idem [OF _ assms Num] show ?thesis using False Num
      by (simp add: round_signed_def)
  qed (simp_all add: round_signed_def False)
qed

lemma is_fp_fadd:
  assumes "1 \<le> prec F"
  shows "is_fp F (fadd F a b)"
  by (cases a; cases b) (simp_all add: is_fp_round_signed [OF assms])

lemma fadd_zero_fixed:
  assumes "0 \<le> v" and "round_fin F s v = Num s v"
  shows "fadd F (Num False 0) (Num s v) = (if s \<and> v = 0 then Num False 0 else Num s v)"
  using assms by (cases s) (auto simp add: round_signed_def sval_def)

lemma fadd_zero_rounded:
  assumes "0 \<le> q" and "1 \<le> prec F"
  shows "fadd F (Num False 0) (round_fin F s q) =
    (if round_fin F s q = Num True 0 then Num False 0 else round_fin F s q)"
proof (cases "round_fin F s q")
  case NaN
  then show ?thesis by simp
next
  case (Infty t)
  then show ?thesis by simp
next
  case (Num t v)
  from round_fin_idem [OF assms Num] have ts: "t = s" and v0: "0 \<le> v"
    and id: "round_fin F s v = Num s v" by simp_all
  from fadd_zero_fixed [OF v0 id] show ?thesis unfolding Num ts by auto
qed

lemma eq_upto_zero_sign_refl: "eq_upto_zero_sign a a"
  by (simp add: eq_upto_zero_sign_def)

lemma eq_upto_zero_sign_cases:
  assumes "eq_upto_zero_sign a b"
  obtains "a = b" | s t where "a = Num s 0" and "b = Num t 0"
  using assms by (cases a; cases b) (auto simp add: eq_upto_zero_sign_def)

lemma eq_upto_zero_sign_fadd_left:
  assumes "eq_upto_zero_sign a b"
  shows "eq_upto_zero_sign (fadd F a c) (fadd F b c)"
  using assms
proof (cases rule: eq_upto_zero_sign_cases)
  case 1
  then show ?thesis by (simp add: eq_upto_zero_sign_refl)
next
  case (2 s t)
  then show ?thesis
    by (cases c) (simp_all add: eq_upto_zero_sign_def round_signed_def sval_def)
qed

text \<open>Adding anything but \<open>-0.0\<close> to a zero forgets the sign of the zero.\<close>

lemma fadd_zeros_eq:
  assumes "eq_upto_zero_sign a b" and "c \<noteq> Num True 0"
  shows "fadd F a c = fadd F b c"
  using assms(1)
proof (cases rule: eq_upto_zero_sign_cases)
  case 1
  then show ?thesis by simp
next
  case (2 s t)
  then show ?thesis using assms(2)
    by (cases c) (auto simp add: round_signed_def sval_def)
qed

lemma fmul_C0_rounded:
  assumes "is_fp binary32 d"
  shows "fmul binary32 C0 d = NaN \<or> (\<exists>s. fmul binary32 C0 d = Infty s)
    \<or> (\<exists>s q. 0 \<le> q \<and> fmul binary32 C0 d = round_fin binary32 s q)"
proof (cases d)
  case NaN
  then show ?thesis by simp
next
  case (Infty t)
  then show ?thesis by (simp add: const_vals)
next
  case (Num t n)
  with assms have "0 \<le> n" by simp
  then have "0 \<le> 8801163 / 536870912 * n" by simp
  then show ?thesis unfolding Num const_vals fmul.simps by blast
qed

lemma fadd_zero_product:
  assumes "is_fp binary32 d"
  shows "fadd binary32 zero_f (fmul binary32 C0 d) =
    (if fmul binary32 C0 d = Num True 0 then Num False 0 else fmul binary32 C0 d)"
proof -
  have p: "1 \<le> prec binary32" by (simp add: binary32_def)
  from fmul_C0_rounded [OF assms] consider
    "fmul binary32 C0 d = NaN" | s where "fmul binary32 C0 d = Infty s"
    | s q where "0 \<le> q" and "fmul binary32 C0 d = round_fin binary32 s q" by blast
  then show ?thesis
  proof cases
    case 1
    then show ?thesis by (simp add: zero_f_def)
  next
    case 2
    then show ?thesis by (simp add: zero_f_def)
  next
    case 3
    show ?thesis unfolding zero_f_def 3(2) by (rule fadd_zero_rounded [OF 3(1) p])
  qed
qed

text \<open>A product that is \<open>-0.0\<close> fixes the sign of the other factor.\<close>

lemma fmul_pos_minus_zero:
  assumes "fmul F (Num False c) d = Num True 0"
  shows "\<exists>m. d = Num True m"
  using assms by (cases d) (auto simp add: round_fin_def Let_def split: if_splits)

lemma fmul_neg_minus_zero:
  assumes "fmul F (Num True c) d = Num True 0"
  shows "\<exists>m. d = Num False m"
  using assms by (cases d) (auto simp add: round_fin_def Let_def split: if_splits)

text \<open>
  The saturation error \<open>clamp u - u\<close> has its sign bit set only above the limit, and there
  it is never a datum with a clear sign bit.
\<close>

lemma sat_error_negative:
  assumes "fle zero_f Y" and "fsub F (clamp u (fneg Y) Y) u = Num True k"
  shows "flt Y u"
  using assms
  by (cases Y; cases u)
    (auto simp add: clamp_def zero_f_def sval_def round_signed_def round_fin_def Let_def
      split: if_splits)

lemma sat_error_above:
  assumes "fle zero_f Y" and "flt Y u"
  shows "fsub F (clamp u (fneg Y) Y) u \<noteq> Num False k"
  using assms
  by (cases Y; cases u)
    (auto simp add: clamp_def zero_f_def sval_def round_signed_def round_fin_def Let_def
      split: if_splits)

text \<open>
  Adding a value that is not positive to a value that does not exceed the limit cannot
  exceed the limit: the limit is a datum of the format, and rounding is monotone.
\<close>

lemma round_signed_below_limit:
  assumes "1 \<le> prec F" and "0 \<le> my" and "round_fin F sy my = Num sy my"
    and "0 \<le> sval sy my" and "r \<le> sval sy my"
  shows "\<not> flt (Num sy my) (round_signed F z r)"
proof -
  consider "r = 0" | "r < 0" | "0 < r" by linarith
  then show ?thesis
  proof cases
    case 1
    then show ?thesis using assms(4) by (simp add: round_signed_def sval_def)
  next
    case 2
    have "0 \<le> round_mag F \<bar>r\<bar>" by (rule round_mag_nonneg) simp
    then show ?thesis using 2 assms(4)
      by (auto simp add: round_signed_def round_fin_def Let_def sval_def split: if_splits)
  next
    case 3
    from assms(3) have id: "round_mag F my = my" and fin: "\<not> 2 powi emax F \<le> my"
      by (auto simp add: round_fin_def Let_def split: if_splits)
    from 3 assms(5) have le: "r \<le> my" and sy: "\<not> sy"
      using assms(2) by (auto simp add: sval_def split: if_splits)
    have "round_mag F r \<le> my" using 3 le id by (intro round_mag_le) simp_all
    then show ?thesis using 3 fin sy
      by (auto simp add: round_signed_def round_fin_def Let_def sval_def)
  qed
qed

lemma flt_infty: "\<not> flt (Infty False) x"
  by (cases x) simp_all

lemma fadd_above_limit:
  assumes "1 \<le> prec F" and "is_fp F Y" and "fle zero_f Y" and "0 \<le> m"
    and "flt Y (fadd F u (Num True m))"
  shows "flt Y u"
proof (cases Y)
  case NaN
  with assms(3) show ?thesis by simp
next
  case (Infty s)
  with assms(3,5) show ?thesis by (simp add: zero_f_def flt_infty)
next
  case Y: (Num sy my)
  from assms(2) have my: "0 \<le> my" and id: "round_fin F sy my = Num sy my"
    by (simp_all add: Y)
  from assms(3) have sv: "0 \<le> sval sy my" by (simp add: Y zero_f_def sval_def)
  show ?thesis
  proof (cases u)
    case NaN
    with assms(5) show ?thesis by (simp add: Y)
  next
    case (Infty t)
    with assms(5) show ?thesis by (simp add: Y)
  next
    case (Num t n)
    show ?thesis
    proof (rule ccontr)
      assume "\<not> flt Y u"
      then have "sval t n - m \<le> sval sy my" using assms(4) by (simp add: Y Num)
      from round_signed_below_limit [OF assms(1) my id sv this, of t]
      show False using assms(5) by (simp add: Y Num sval_def)
    qed
  qed
qed

text \<open>In a consistent history the first and the last two products are not all \<open>-0.0\<close>.\<close>

lemma products_not_all_minus_zero:
  assumes "history_consistent st"
    and "fmul binary32 C0 (dy1 st) = Num True 0"
    and "fmul binary32 C7A (fsub binary32 (y_sat_1 st) (y_unsat_1 st)) = Num True 0"
  shows "fmul binary32 C7B (fsub binary32 (y_sat_2 st) (y_unsat_2 st)) \<noteq> Num True 0"
proof
  assume c: "fmul binary32 C7B (fsub binary32 (y_sat_2 st) (y_unsat_2 st)) = Num True 0"
  have p: "1 \<le> prec binary32" by (simp add: binary32_def)
  from assms(1) have Y: "is_fp binary32 (YSAT_lim st)" "fle zero_f (YSAT_lim st)"
    and d: "is_fp binary32 (dy1 st)"
    and u: "y_unsat_1 st = fadd binary32 (y_unsat_2 st) (dy1 st)"
    and s1: "y_sat_1 st = clamp (y_unsat_1 st) (fneg (YSAT_lim st)) (YSAT_lim st)"
    and s2: "y_sat_2 st = clamp (y_unsat_2 st) (fneg (YSAT_lim st)) (YSAT_lim st)"
    by (simp_all add: history_consistent_def valid_limit_def add_rn_def)
  from assms(2) obtain m where m: "dy1 st = Num True m"
    unfolding const_vals by (blast dest: fmul_pos_minus_zero)
  with d have m0: "0 \<le> m" by simp
  from assms(3) obtain k where "fsub binary32 (y_sat_1 st) (y_unsat_1 st) = Num True k"
    unfolding const_vals by (blast dest: fmul_pos_minus_zero)
  then have "flt (YSAT_lim st) (y_unsat_1 st)"
    unfolding s1 by (rule sat_error_negative [OF Y(2)])
  then have "flt (YSAT_lim st) (fadd binary32 (y_unsat_2 st) (Num True m))"
    by (simp add: u m)
  then have above: "flt (YSAT_lim st) (y_unsat_2 st)"
    by (rule fadd_above_limit [OF p Y m0])
  from c obtain j where "fsub binary32 (y_sat_2 st) (y_unsat_2 st) = Num False j"
    unfolding const_vals by (blast dest: fmul_neg_minus_zero)
  with sat_error_above [OF Y(2) above] show False by (simp add: s2)
qed

text \<open>
  From a consistent history the two steps agree: the sums of the nine products, started
  from \<^verbatim>\<open>0.0f\<close> and started from the first product, can differ only when every product is
  \<open>-0.0\<close>.
\<close>

lemma steps_agree:
  assumes "history_consistent st"
  shows "step st w x = step_compare st w x"
proof -
  define p where "p = fmul binary32 C0 (dy1 st)"
  define t8 where "t8 = fmul binary32 C7A (fsub binary32 (y_sat_1 st) (y_unsat_1 st))"
  define t9 where "t9 = fmul binary32 C7B (fsub binary32 (y_sat_2 st) (y_unsat_2 st))"
  define r where "r = (\<lambda>a. fadd binary32 (fadd binary32 (fadd binary32 (fadd binary32
      (fadd binary32 (fadd binary32 a
         (fmul binary32 C1 w)) (fmul binary32 C2 (w1 st))) (fmul binary32 C3 (w2 st)))
         (fmul binary32 C4 x)) (fmul binary32 C5 (x1 st))) (fmul binary32 C6 (x2 st)))"
  define fin where "fin = (\<lambda>dy. let y_unsat = fadd binary32 (y_unsat_1 st) dy;
      y_sat = clamp y_unsat (fneg (YSAT_lim st)) (YSAT_lim st)
      in (y_sat, shift_history st dy w x y_unsat y_sat))"
  have A: "step st w x = fin (fadd binary32 (fadd binary32 (r (fadd binary32 zero_f p)) t8) t9)"
    by (simp add: step_def fin_def r_def p_def t8_def t9_def add_rn_def mul_rn_def fadd_fneg
        Let_def)
  have B: "step_compare st w x = fin (fadd binary32 (fadd binary32 (r p) t8) t9)"
    by (simp add: step_compare_def fin_def r_def p_def t8_def t9_def Let_def)
  have "fadd binary32 (fadd binary32 (r (fadd binary32 zero_f p)) t8) t9
      = fadd binary32 (fadd binary32 (r p) t8) t9"
  proof (cases "p = Num True 0")
    case False
    from assms have "is_fp binary32 (dy1 st)" by (simp add: history_consistent_def)
    then have "fadd binary32 zero_f p = p"
      using False by (simp add: fadd_zero_product p_def)
    then show ?thesis by simp
  next
    case True
    have "eq_upto_zero_sign (fadd binary32 zero_f p) p"
      by (simp add: True eq_upto_zero_sign_def zero_f_def round_signed_def sval_def)
    then have r: "eq_upto_zero_sign (r (fadd binary32 zero_f p)) (r p)"
      unfolding r_def by (intro eq_upto_zero_sign_fadd_left)
    show ?thesis
    proof (cases "t8 = Num True 0")
      case False
      then have "fadd binary32 (r (fadd binary32 zero_f p)) t8 = fadd binary32 (r p) t8"
        by (rule fadd_zeros_eq [OF r])
      then show ?thesis by simp
    next
      case t8: True
      have "t9 \<noteq> Num True 0"
        unfolding t9_def
        by (rule products_not_all_minus_zero [OF assms True [unfolded p_def] t8 [unfolded t8_def]])
      then show ?thesis by (rule fadd_zeros_eq [OF eq_upto_zero_sign_fadd_left [OF r]])
    qed
  qed
  then show ?thesis by (simp only: A B)
qed

text \<open>The constructor and \<^verbatim>\<open>reset\<close> make the history consistent, and a step keeps it so.\<close>

lemma step_consistent:
  assumes "history_consistent st"
  shows "history_consistent (snd (step st w x))"
proof -
  have p: "1 \<le> prec binary32" by (simp add: binary32_def)
  show ?thesis using assms is_fp_fadd [OF p]
    by (simp add: history_consistent_def step_def shift_history_eq add_rn_def Let_def)
qed

lemma reset_consistent:
  assumes "valid_limit (YSAT_lim st)"
  shows "history_consistent (reset st)"
proof -
  from assms have "\<not> flt (YSAT_lim st) zero_f"
    by (cases "YSAT_lim st") (auto simp add: valid_limit_def zero_f_def)
  from clamp_zero [OF this] assms show ?thesis
    by (simp add: history_consistent_def reset_eq add_rn_def)
      (simp add: zero_f_def round_fin_zero round_signed_zero sval_def)
qed

lemma new_consistent:
  assumes "valid_limit Y"
  shows "history_consistent (DeltaPid2TapAw_new Y)"
  unfolding DeltaPid2TapAw_new_def using assms by (intro reset_consistent) simp

lemma runs_agree:
  assumes "history_consistent st"
  shows "run_steps step st ins = run_steps step_compare st ins"
  using assms
proof (induction ins arbitrary: st)
  case Nil
  show ?case by simp
next
  case (Cons a ins)
  obtain w x where a: "a = (w, x)" by (cases a)
  have e: "step_compare st w x = step st w x" using Cons.prems by (simp add: steps_agree)
  from Cons.IH [OF step_consistent [OF Cons.prems]] show ?case
    by (simp add: a e split_beta)
qed

text \<open>
  Claim C8.  With every multiply and add rounded on its own, the step that accumulates with
  \<^verbatim>\<open>mul_rn\<close> and \<^verbatim>\<open>add_rn\<close> and the step that computes \<open>dy\<close> as one expression return the same
  output and reach the same successor state from equal states and equal inputs \<open>(w, x)\<close>, in
  every state a controller can be in: the two steps agree on every consistent history, a
  step keeps the history consistent, \<^verbatim>\<open>reset\<close> and the constructor make it consistent for
  every valid limit, and so the two controllers give the same outputs and the same final
  state on every sequence of inputs.
\<close>

theorem step_variants_agree:
  "(history_consistent st \<longrightarrow>
      step st w x = step_compare st w x \<and> history_consistent (snd (step st w x)))
   \<and> (valid_limit (YSAT_lim st) \<longrightarrow> history_consistent (reset st))
   \<and> (valid_limit Y \<longrightarrow>
        history_consistent (DeltaPid2TapAw_new Y)
        \<and> run_steps step (DeltaPid2TapAw_new Y) ins
            = run_steps step_compare (DeltaPid2TapAw_new Y) ins)"
  using steps_agree [of st w x] step_consistent [of st w x] reset_consistent [of st]
    new_consistent [of Y] runs_agree [of "DeltaPid2TapAw_new Y" ins]
  by simp

text \<open>
  Claim C8 for the controller of the simulations, whose limit is \<open>12\<close>: in the state after
  its first step (setpoint \<open>100\<close>, measurement \<open>0\<close>), and on a run of two steps.
\<close>

theorem step_variants_agree_witness:
  "valid_limit YSAT
   \<and> history_consistent (snd (step (DeltaPid2TapAw_new YSAT) W_TGT zero_f))
   \<and> step (snd (step (DeltaPid2TapAw_new YSAT) W_TGT zero_f)) W_TGT zero_f
       = step_compare (snd (step (DeltaPid2TapAw_new YSAT) W_TGT zero_f)) W_TGT zero_f
   \<and> history_consistent (reset (snd (step (DeltaPid2TapAw_new YSAT) W_TGT zero_f)))
   \<and> run_steps step (DeltaPid2TapAw_new YSAT) [(W_TGT, zero_f), (W_TGT, W_TGT)]
       = run_steps step_compare (DeltaPid2TapAw_new YSAT) [(W_TGT, zero_f), (W_TGT, W_TGT)]"
proof -
  have h1: "valid_limit YSAT"
    by (simp add: valid_limit_def const_vals zero_f_def fp_eval)
  have h2: "history_consistent (snd (step (DeltaPid2TapAw_new YSAT) W_TGT zero_f))"
    unfolding first_step snd_conv
    by (simp add: history_consistent_def valid_limit_def add_rn_def clamp_def zero_f_def fp_eval)
  have h3: "valid_limit (YSAT_lim (snd (step (DeltaPid2TapAw_new YSAT) W_TGT zero_f)))"
    using h2 by (simp add: history_consistent_def)
  from step_variants_agree [of "snd (step (DeltaPid2TapAw_new YSAT) W_TGT zero_f)" W_TGT zero_f
      YSAT "[(W_TGT, zero_f), (W_TGT, W_TGT)]"] h1 h2 h3
  show ?thesis by simp
qed

section \<open>The exit status of the harnesses\<close>

lemma golden_exit_eq: "golden_exit y_sim y_ref = (if y_ref = [] then 1 else 0)"
  by (simp add: golden_exit_def)

lemma mismatch_count_eq:
  "mismatch_count cnt ps = cnt + int (length (filter (\<lambda>(y_g, y_d). \<not> sample_ok y_g y_d) ps))"
  by (induction ps arbitrary: cnt) auto

lemma compare_exit_zero_iff:
  "compare_exit ps = 0 \<longleftrightarrow> list_all (\<lambda>(y_g, y_d). sample_ok y_g y_d) ps"
  by (auto simp add: compare_exit_def mismatch_count_eq filter_empty_conv list_all_iff)

lemma sim_loop_once:
  "sim_loop (Suc 0) c e v =
     (case sample e v of
        None \<Rightarrow> None
      | Some ((spdcnt, x_meas), enc') \<Rightarrow> Some [fst (step c W_TGT x_meas)])"
  by (simp add: Let_def split: option.splits prod.splits)

lemma first_output:
  "sim_loop 1 (DeltaPid2TapAw_new YSAT) (EncoderFloor_new Ts_sim) zero_f
     = Some [Num False (11576279 / 1048576)]"
proof -
  have s: "sample (EncoderFloor_new Ts_sim) zero_f =
      Some ((0, zero_f), EncoderFloor_new Ts_sim)"
    by (simp add: new_encoder enc_eval)
  show ?thesis
    by (simp add: sim_loop_once s first_step)
qed

text \<open>
  Claim C3 asks for a zero exit status exactly when every compared sample is within the
  tolerance, in both harnesses.  \<^verbatim>\<open>pid_compare.cpp\<close> does so (\<open>compare_exit_zero_iff\<close>);
  \<^verbatim>\<open>pid_last_compare.cpp\<close> does not: its exit status only tells whether the reference trace
  was empty (\<open>golden_exit_eq\<close>).  With a trace file that holds the single value \<open>1000\<close>, the
  first simulated output \<open>11576279 / 2^20\<close> (about \<open>11.04\<close>) is compared with it and fails, whatever
  the later outputs \<open>ys\<close> are, and the exit status is \<open>0\<close>.
\<close>

theorem golden_exit_ignores_failures:
  "sim_loop 1 (DeltaPid2TapAw_new YSAT) (EncoderFloor_new Ts_sim) zero_f
     = Some [Num False (11576279 / 1048576)]
   \<and> fail (golden_compare (Num False (11576279 / 1048576) # ys) [f32_lit 1000]) = 1
   \<and> pass (golden_compare (Num False (11576279 / 1048576) # ys) [f32_lit 1000]) = 0
   \<and> golden_exit (Num False (11576279 / 1048576) # ys) [f32_lit 1000] = 0"
proof -
  have l: "f32_lit 1000 = Num False 1000" by (simp add: f32_lit_def fp_eval)
  have c: "golden_compare (Num False (11576279 / 1048576) # ys) [Num False 1000] =
      \<lparr>pass = 0, fail = 1, max_err = Num False (16203121 / 16384), max_i = 0\<rparr>"
    by (simp add: golden_compare_def compare_at_def tol_def f32_lit_def zero_f_def fp_eval)
  show ?thesis by (intro conjI, rule first_output) (simp_all add: l c golden_exit_eq)
qed

section \<open>The coefficient derivation\<close>

lemma double_consts:
  "Ts_sec = Num False (5764607523034235 / 1152921504606846976)"
  "f64_lit 0 = Num False 0" "f64_lit 1 = Num False 1" "f64_lit 2 = Num False 2"
  "f64_lit (10 ^ 20) = Num False 100000000000000000000"
  "f64_lit (10 ^ 30) = Num False 1000000000000000019884624838656"
  "f64_lit 100000000000000000000 = Num False 100000000000000000000"
  "f64_lit 1000000000000000000000000000000 = Num False 1000000000000000019884624838656"
  by (simp_all add: Ts_sec_def f64_lit_def fp_eval)

text \<open>Each local of \<^verbatim>\<open>compute_coeffs\<close> in terms of the arguments and of the locals before it.\<close>

lemma locals_time_constants:
  "l_Ti (compute_locals Kp Ki Kd N b c Kb) =
     (if flt (f64_lit 0) Ki \<and> flt (f64_lit 0) Kp then fdiv binary64 Kp Ki else f64_lit (10 ^ 30))"
  "l_Td (compute_locals Kp Ki Kd N b c Kb) =
     (if flt (f64_lit 0) Kp then fdiv binary64 Kd Kp else f64_lit 0)"
  "l_a (compute_locals Kp Ki Kd N b c Kb) =
     (if flt (f64_lit 0) N then fdiv binary64 (f64_lit 1) N else f64_lit 0)"
  by (simp_all add: compute_locals_def compute_time_constants_def Let_def)

lemma locals_den:
  "l_den (compute_locals Kp Ki Kd N b c Kb) =
     fadd binary64 Ts_sec (fmul binary64 (l_a (compute_locals Kp Ki Kd N b c Kb))
       (l_Td (compute_locals Kp Ki Kd N b c Kb)))"
  by (simp add: compute_locals_def compute_time_constants_def Let_def)

lemma locals_Ts_over_Ti:
  "l_Ts_over_Ti (compute_locals Kp Ki Kd N b c Kb) =
     (if flt (l_Ti (compute_locals Kp Ki Kd N b c Kb)) (f64_lit (10 ^ 20))
      then fdiv binary64 Ts_sec (l_Ti (compute_locals Kp Ki Kd N b c Kb)) else f64_lit 0)"
  by (simp add: compute_locals_def compute_time_constants_def Let_def)

lemma locals_C0:
  "l_C0 (compute_locals Kp Ki Kd N b c Kb) =
     (if flt (f64_lit 0) (l_den (compute_locals Kp Ki Kd N b c Kb))
      then fdiv binary64 (fmul binary64 (l_a (compute_locals Kp Ki Kd N b c Kb))
             (l_Td (compute_locals Kp Ki Kd N b c Kb))) (l_den (compute_locals Kp Ki Kd N b c Kb))
      else f64_lit 0)"
  by (simp add: compute_locals_def compute_time_constants_def Let_def)

lemma locals_C1:
  "l_C1 (compute_locals Kp Ki Kd N b c Kb) =
     fmul binary64 Kp
       (fadd binary64 (fadd binary64 b (l_Ts_over_Ti (compute_locals Kp Ki Kd N b c Kb)))
          (fdiv binary64 (fmul binary64 (l_Td (compute_locals Kp Ki Kd N b c Kb)) c)
             (l_den (compute_locals Kp Ki Kd N b c Kb))))"
  by (simp add: compute_locals_def compute_time_constants_def Let_def)

lemma locals_C2:
  "l_C2 (compute_locals Kp Ki Kd N b c Kb) =
     fdiv binary64
       (fmul binary64 (fneg Kp)
          (fadd binary64
             (fadd binary64
                (fmul binary64 b
                   (fadd binary64 Ts_sec
                      (fmul binary64 (fmul binary64 (f64_lit 2)
                         (l_a (compute_locals Kp Ki Kd N b c Kb)))
                         (l_Td (compute_locals Kp Ki Kd N b c Kb)))))
                (fmul binary64 (fmul binary64 (l_a (compute_locals Kp Ki Kd N b c Kb))
                   (l_Td (compute_locals Kp Ki Kd N b c Kb)))
                   (l_Ts_over_Ti (compute_locals Kp Ki Kd N b c Kb))))
             (fmul binary64 (fmul binary64 (f64_lit 2)
                (l_Td (compute_locals Kp Ki Kd N b c Kb))) c)))
       (l_den (compute_locals Kp Ki Kd N b c Kb))"
  by (simp add: compute_locals_def compute_time_constants_def Let_def)

lemma locals_C3:
  "l_C3 (compute_locals Kp Ki Kd N b c Kb) =
     fdiv binary64
       (fmul binary64 (fmul binary64 Kp (l_Td (compute_locals Kp Ki Kd N b c Kb)))
          (fadd binary64 (fmul binary64 (l_a (compute_locals Kp Ki Kd N b c Kb)) b) c))
       (l_den (compute_locals Kp Ki Kd N b c Kb))"
  by (simp add: compute_locals_def compute_time_constants_def Let_def)

lemma locals_C4:
  "l_C4 (compute_locals Kp Ki Kd N b c Kb) =
     fmul binary64 (fneg Kp)
       (fadd binary64
          (fadd binary64 (f64_lit 1) (l_Ts_over_Ti (compute_locals Kp Ki Kd N b c Kb)))
          (fdiv binary64 (l_Td (compute_locals Kp Ki Kd N b c Kb))
             (l_den (compute_locals Kp Ki Kd N b c Kb))))"
  by (simp add: compute_locals_def compute_time_constants_def Let_def)

lemma locals_C5:
  "l_C5 (compute_locals Kp Ki Kd N b c Kb) =
     fdiv binary64
       (fmul binary64 Kp
          (fadd binary64
             (fadd binary64
                (fadd binary64 Ts_sec
                   (fmul binary64 (fmul binary64 (f64_lit 2)
                      (l_a (compute_locals Kp Ki Kd N b c Kb)))
                      (l_Td (compute_locals Kp Ki Kd N b c Kb))))
                (fmul binary64 (fmul binary64 (l_a (compute_locals Kp Ki Kd N b c Kb))
                   (l_Td (compute_locals Kp Ki Kd N b c Kb)))
                   (l_Ts_over_Ti (compute_locals Kp Ki Kd N b c Kb))))
             (fmul binary64 (f64_lit 2) (l_Td (compute_locals Kp Ki Kd N b c Kb)))))
       (l_den (compute_locals Kp Ki Kd N b c Kb))"
  by (simp add: compute_locals_def compute_time_constants_def Let_def)

lemma locals_C6:
  "l_C6 (compute_locals Kp Ki Kd N b c Kb) =
     fdiv binary64
       (fmul binary64 (fneg Kp)
          (fmul binary64 (l_Td (compute_locals Kp Ki Kd N b c Kb))
             (fadd binary64 (l_a (compute_locals Kp Ki Kd N b c Kb)) (f64_lit 1))))
       (l_den (compute_locals Kp Ki Kd N b c Kb))"
  by (simp add: compute_locals_def compute_time_constants_def Let_def)

lemma locals_C7:
  "l_C7A (compute_locals Kp Ki Kd N b c Kb) = fmul binary64 (fmul binary64 Ki Kb) Ts_sec"
  "l_C7B (compute_locals Kp Ki Kd N b c Kb) =
     fmul binary64 (fneg (l_C7A (compute_locals Kp Ki Kd N b c Kb)))
       (l_C0 (compute_locals Kp Ki Kd N b c Kb))"
  by (simp_all add: compute_locals_def compute_time_constants_def Let_def)

lemma coeffs_casts:
  "a0 (compute_coeffs Kp Ki Kd N b c Kb) = f32_of_f64 (l_C0 (compute_locals Kp Ki Kd N b c Kb))"
  "c1 (compute_coeffs Kp Ki Kd N b c Kb) = f32_of_f64 (l_C1 (compute_locals Kp Ki Kd N b c Kb))"
  "c2 (compute_coeffs Kp Ki Kd N b c Kb) = f32_of_f64 (l_C2 (compute_locals Kp Ki Kd N b c Kb))"
  "c3 (compute_coeffs Kp Ki Kd N b c Kb) = f32_of_f64 (l_C3 (compute_locals Kp Ki Kd N b c Kb))"
  "c4 (compute_coeffs Kp Ki Kd N b c Kb) = f32_of_f64 (l_C4 (compute_locals Kp Ki Kd N b c Kb))"
  "c5 (compute_coeffs Kp Ki Kd N b c Kb) = f32_of_f64 (l_C5 (compute_locals Kp Ki Kd N b c Kb))"
  "c6 (compute_coeffs Kp Ki Kd N b c Kb) = f32_of_f64 (l_C6 (compute_locals Kp Ki Kd N b c Kb))"
  "c7a (compute_coeffs Kp Ki Kd N b c Kb) = f32_of_f64 (l_C7A (compute_locals Kp Ki Kd N b c Kb))"
  "c7b (compute_coeffs Kp Ki Kd N b c Kb) = f32_of_f64 (l_C7B (compute_locals Kp Ki Kd N b c Kb))"
  by (simp_all add: compute_coeffs_def Let_def)

lemma den_zero_locals_1:
  "l_Ti (compute_locals (Num False 1) (Num False 0) (Num True (5764607523034235 / 1152921504606846976)) (Num False 1) (Num False 1) (Num False 0) (Num False 0)) = Num False 1000000000000000019884624838656"
  "l_Td (compute_locals (Num False 1) (Num False 0) (Num True (5764607523034235 / 1152921504606846976)) (Num False 1) (Num False 1) (Num False 0) (Num False 0)) = Num True (5764607523034235 / 1152921504606846976)"
  "l_a (compute_locals (Num False 1) (Num False 0) (Num True (5764607523034235 / 1152921504606846976)) (Num False 1) (Num False 1) (Num False 0) (Num False 0)) = Num False 1"
  by (simp_all add: locals_time_constants  double_consts fp_eval)

lemma den_zero_locals_2:
  "l_den (compute_locals (Num False 1) (Num False 0) (Num True (5764607523034235 / 1152921504606846976)) (Num False 1) (Num False 1) (Num False 0) (Num False 0)) = Num False 0"
  "l_Ts_over_Ti (compute_locals (Num False 1) (Num False 0) (Num True (5764607523034235 / 1152921504606846976)) (Num False 1) (Num False 1) (Num False 0) (Num False 0)) = Num False 0"
  by (simp_all add: locals_Ts_over_Ti locals_den den_zero_locals_1 double_consts fp_eval)

lemma den_zero_locals_3:
  "l_C0 (compute_locals (Num False 1) (Num False 0) (Num True (5764607523034235 / 1152921504606846976)) (Num False 1) (Num False 1) (Num False 0) (Num False 0)) = Num False 0"
  "l_C1 (compute_locals (Num False 1) (Num False 0) (Num True (5764607523034235 / 1152921504606846976)) (Num False 1) (Num False 1) (Num False 0) (Num False 0)) = NaN"
  "l_C2 (compute_locals (Num False 1) (Num False 0) (Num True (5764607523034235 / 1152921504606846976)) (Num False 1) (Num False 1) (Num False 0) (Num False 0)) = Infty False"
  "l_C3 (compute_locals (Num False 1) (Num False 0) (Num True (5764607523034235 / 1152921504606846976)) (Num False 1) (Num False 1) (Num False 0) (Num False 0)) = Infty True"
  "l_C4 (compute_locals (Num False 1) (Num False 0) (Num True (5764607523034235 / 1152921504606846976)) (Num False 1) (Num False 1) (Num False 0) (Num False 0)) = Infty False"
  "l_C5 (compute_locals (Num False 1) (Num False 0) (Num True (5764607523034235 / 1152921504606846976)) (Num False 1) (Num False 1) (Num False 0) (Num False 0)) = Infty True"
  "l_C6 (compute_locals (Num False 1) (Num False 0) (Num True (5764607523034235 / 1152921504606846976)) (Num False 1) (Num False 1) (Num False 0) (Num False 0)) = Infty False"
  "l_C7A (compute_locals (Num False 1) (Num False 0) (Num True (5764607523034235 / 1152921504606846976)) (Num False 1) (Num False 1) (Num False 0) (Num False 0)) = Num False 0"
  by (simp_all add: locals_C0 locals_C1 locals_C2 locals_C3 locals_C4 locals_C5 locals_C6 locals_C7 den_zero_locals_1 den_zero_locals_2 double_consts fp_eval)

lemma den_zero_locals_4:
  "l_C7B (compute_locals (Num False 1) (Num False 0) (Num True (5764607523034235 / 1152921504606846976)) (Num False 1) (Num False 1) (Num False 0) (Num False 0)) = Num True 0"
  by (simp_all add: locals_C7 den_zero_locals_1 den_zero_locals_2 den_zero_locals_3 double_consts fp_eval)

lemma den_zero_coeffs:
  "a0 (compute_coeffs (Num False 1) (Num False 0) (Num True (5764607523034235 / 1152921504606846976)) (Num False 1) (Num False 1) (Num False 0) (Num False 0)) = Num False 0"
  "c1 (compute_coeffs (Num False 1) (Num False 0) (Num True (5764607523034235 / 1152921504606846976)) (Num False 1) (Num False 1) (Num False 0) (Num False 0)) = NaN"
  "c2 (compute_coeffs (Num False 1) (Num False 0) (Num True (5764607523034235 / 1152921504606846976)) (Num False 1) (Num False 1) (Num False 0) (Num False 0)) = Infty False"
  "c3 (compute_coeffs (Num False 1) (Num False 0) (Num True (5764607523034235 / 1152921504606846976)) (Num False 1) (Num False 1) (Num False 0) (Num False 0)) = Infty True"
  "c4 (compute_coeffs (Num False 1) (Num False 0) (Num True (5764607523034235 / 1152921504606846976)) (Num False 1) (Num False 1) (Num False 0) (Num False 0)) = Infty False"
  "c5 (compute_coeffs (Num False 1) (Num False 0) (Num True (5764607523034235 / 1152921504606846976)) (Num False 1) (Num False 1) (Num False 0) (Num False 0)) = Infty True"
  "c6 (compute_coeffs (Num False 1) (Num False 0) (Num True (5764607523034235 / 1152921504606846976)) (Num False 1) (Num False 1) (Num False 0) (Num False 0)) = Infty False"
  "c7a (compute_coeffs (Num False 1) (Num False 0) (Num True (5764607523034235 / 1152921504606846976)) (Num False 1) (Num False 1) (Num False 0) (Num False 0)) = Num False 0"
  "c7b (compute_coeffs (Num False 1) (Num False 0) (Num True (5764607523034235 / 1152921504606846976)) (Num False 1) (Num False 1) (Num False 0) (Num False 0)) = Num True 0"
  by (simp_all add: coeffs_casts den_zero_locals_1 den_zero_locals_2 den_zero_locals_3 den_zero_locals_4 fp_eval)
lemma taps_locals_1:
  "l_Ti (compute_locals (Num False 1) (Num False 1) (Num False 1) (Num False 120) (Num False 1) (Num False 0) (Num False 1)) = Num False 1"
  "l_Td (compute_locals (Num False 1) (Num False 1) (Num False 1) (Num False 120) (Num False 1) (Num False 0) (Num False 1)) = Num False 1"
  "l_a (compute_locals (Num False 1) (Num False 1) (Num False 1) (Num False 120) (Num False 1) (Num False 0) (Num False 1)) = Num False (4803839602528529 / 576460752303423488)"
  by (simp_all add: locals_time_constants  double_consts fp_eval)

lemma taps_locals_2:
  "l_den (compute_locals (Num False 1) (Num False 1) (Num False 1) (Num False 120) (Num False 1) (Num False 0) (Num False 1)) = Num False (3843071682022823 / 288230376151711744)"
  "l_Ts_over_Ti (compute_locals (Num False 1) (Num False 1) (Num False 1) (Num False 120) (Num False 1) (Num False 0) (Num False 1)) = Num False (5764607523034235 / 1152921504606846976)"
  by (simp_all add: locals_Ts_over_Ti locals_den taps_locals_1 double_consts fp_eval)

lemma taps_locals_3:
  "l_C0 (compute_locals (Num False 1) (Num False 1) (Num False 1) (Num False 120) (Num False 1) (Num False 0) (Num False 1)) = Num False (5 / 8)"
  "l_C7A (compute_locals (Num False 1) (Num False 1) (Num False 1) (Num False 120) (Num False 1) (Num False 0) (Num False 1)) = Num False (5764607523034235 / 1152921504606846976)"
  by (simp_all add: locals_C0 locals_C7 taps_locals_1 taps_locals_2 double_consts fp_eval)

lemma taps_locals_4:
  "l_C7B (compute_locals (Num False 1) (Num False 1) (Num False 1) (Num False 120) (Num False 1) (Num False 0) (Num False 1)) = Num True (3602879701896397 / 1152921504606846976)"
  by (simp_all add: locals_C7 taps_locals_1 taps_locals_2 taps_locals_3 double_consts fp_eval)

lemma taps_coeffs:
  "a0 (compute_coeffs (Num False 1) (Num False 1) (Num False 1) (Num False 120) (Num False 1) (Num False 0) (Num False 1)) = Num False (5 / 8)"
  "c7a (compute_coeffs (Num False 1) (Num False 1) (Num False 1) (Num False 120) (Num False 1) (Num False 0) (Num False 1)) = Num False (5368709 / 1073741824)"
  "c7b (compute_coeffs (Num False 1) (Num False 1) (Num False 1) (Num False 120) (Num False 1) (Num False 0) (Num False 1)) = Num True (13421773 / 4294967296)"
  by (simp_all add: coeffs_casts taps_locals_1 taps_locals_2 taps_locals_3 taps_locals_4 fp_eval)




lemma input_vals:
  "f64_lit (- (5 / 1000)) = Num True (5764607523034235 / 1152921504606846976)"
  "f64_lit 120 = Num False 120"
  "f64_lit (10 ^ 39) = Num False 999999999999999939709166371603178586112"
  by (simp_all add: f64_lit_def fp_eval)

lemma den_guard_a0:
  assumes "\<not> flt (f64_lit 0) (l_den (compute_locals Kp Ki Kd N b c Kb))"
  shows "a0 (compute_coeffs Kp Ki Kd N b c Kb) = Num False 0"
  using assms by (simp add: coeffs_casts locals_C0 double_consts round_fin_zero)

text \<open>
  Claim C2 asks that for \<open>den = Ts + a Td \<le> 0\<close> the derivation sets \<open>a0 = 0\<close> and lets every
  term that depends on \<open>1 / den\<close> fall back to \<open>0\<close>, so that no coefficient is an infinity or a
  NaN.  The code guards \<open>a0\<close> alone (\<open>den_guard_a0\<close>) and divides by \<open>den\<close> unguarded in
  \<open>c1\<close> to \<open>c6\<close>.  With the inputs \<open>Kp = 1\<close>, \<open>Ki = 0\<close>, \<open>Kd = -0.005\<close>, \<open>N = 1\<close>, \<open>b = 1\<close>,
  \<open>c = 0\<close>, \<open>Kb = 0\<close> the sum \<open>den\<close> is exactly \<open>0\<close>, and the nine coefficients are
  \<open>0, NaN, +\<infinity>, -\<infinity>, +\<infinity>, -\<infinity>, +\<infinity>, 0, -0\<close>.
\<close>

theorem den_zero_coefficients:
  "l_den (compute_locals (f64_lit 1) (f64_lit 0) (f64_lit (- (5 / 1000))) (f64_lit 1) (f64_lit 1) (f64_lit 0) (f64_lit 0)) = Num False 0
   \<and> fle (l_den (compute_locals (f64_lit 1) (f64_lit 0) (f64_lit (- (5 / 1000))) (f64_lit 1) (f64_lit 1) (f64_lit 0) (f64_lit 0))) (f64_lit 0)
   \<and> coeff_list (compute_coeffs (f64_lit 1) (f64_lit 0) (f64_lit (- (5 / 1000))) (f64_lit 1) (f64_lit 1) (f64_lit 0) (f64_lit 0)) =
       [Num False 0, NaN, Infty False, Infty True, Infty False, Infty True, Infty False,
        Num False 0, Num True 0]"
  unfolding input_vals double_consts coeff_list_def den_zero_coeffs den_zero_locals_2
  by (simp add: sval_def)

text \<open>
  Claim C6, amended.  For every tuning input the second anti-windup tap is computed from
  the first tap and the filter coefficient in double precision, \<open>C7B = -C7A * C0\<close> as one
  rounded \<^verbatim>\<open>double\<close> product, and \<open>a0\<close>, \<open>c7a\<close> and \<open>c7b\<close> are the values \<open>C0\<close>, \<open>C7A\<close> and \<open>C7B\<close>
  rounded to \<^verbatim>\<open>float\<close>: \<open>c7b\<close> is never chosen independently, and equals \<open>-c7a * a0\<close> up to
  these roundings.
\<close>

theorem tap_coupling:
  "l_C7B (compute_locals Kp Ki Kd N b c Kb) =
     fmul binary64 (fneg (l_C7A (compute_locals Kp Ki Kd N b c Kb)))
       (l_C0 (compute_locals Kp Ki Kd N b c Kb))
   \<and> a0 (compute_coeffs Kp Ki Kd N b c Kb) = f32_of_f64 (l_C0 (compute_locals Kp Ki Kd N b c Kb))
   \<and> c7a (compute_coeffs Kp Ki Kd N b c Kb) = f32_of_f64 (l_C7A (compute_locals Kp Ki Kd N b c Kb))
   \<and> c7b (compute_coeffs Kp Ki Kd N b c Kb) =
       f32_of_f64 (fmul binary64 (fneg (l_C7A (compute_locals Kp Ki Kd N b c Kb)))
         (l_C0 (compute_locals Kp Ki Kd N b c Kb)))"
  by (simp add: coeffs_casts locals_C7)

text \<open>
  Claim C6 as stated fails.  For the valid tuning \<open>Kp = 1\<close>, \<open>Ki = 1\<close>, \<open>Kd = 1\<close>, \<open>N = 120\<close>,
  \<open>b = 1\<close>, \<open>c = 0\<close>, \<open>Kb = 1\<close> the coefficients are \<open>a0 = 5/8\<close>, \<open>c7a = 5368709 / 2^30\<close> and
  \<open>c7b = -13421773 / 2^32\<close>, but \<open>-c7a * a0\<close> is \<open>-3355443 / 2^30\<close> as a \<^verbatim>\<open>float\<close> product and
  \<open>-26843545 / 2^33\<close> exactly.
\<close>

theorem tap_coupling_counterexample:
  "a0 (compute_coeffs (f64_lit 1) (f64_lit 1) (f64_lit 1) (f64_lit 120) (f64_lit 1) (f64_lit 0) (f64_lit 1)) = Num False (5 / 8)
   \<and> c7a (compute_coeffs (f64_lit 1) (f64_lit 1) (f64_lit 1) (f64_lit 120) (f64_lit 1) (f64_lit 0) (f64_lit 1)) = Num False (5368709 / 1073741824)
   \<and> c7b (compute_coeffs (f64_lit 1) (f64_lit 1) (f64_lit 1) (f64_lit 120) (f64_lit 1) (f64_lit 0) (f64_lit 1)) = Num True (13421773 / 4294967296)
   \<and> fmul binary32 (fneg (c7a (compute_coeffs (f64_lit 1) (f64_lit 1) (f64_lit 1) (f64_lit 120) (f64_lit 1) (f64_lit 0) (f64_lit 1)))) (a0 (compute_coeffs (f64_lit 1) (f64_lit 1) (f64_lit 1) (f64_lit 120) (f64_lit 1) (f64_lit 0) (f64_lit 1)))
       = Num True (3355443 / 1073741824)
   \<and> c7b (compute_coeffs (f64_lit 1) (f64_lit 1) (f64_lit 1) (f64_lit 120) (f64_lit 1) (f64_lit 0) (f64_lit 1)) \<noteq> fmul binary32 (fneg (c7a (compute_coeffs (f64_lit 1) (f64_lit 1) (f64_lit 1) (f64_lit 120) (f64_lit 1) (f64_lit 0) (f64_lit 1)))) (a0 (compute_coeffs (f64_lit 1) (f64_lit 1) (f64_lit 1) (f64_lit 120) (f64_lit 1) (f64_lit 0) (f64_lit 1)))
   \<and> (13421773 / 4294967296 :: rat) \<noteq> 5368709 / 1073741824 * (5 / 8)"
  unfolding input_vals double_consts taps_coeffs
  by (simp add: fp_eval)

subsection \<open>Bounds through the operations\<close>










lemma bnd_zero: "bnd k (Num s 0)"
  by (simp add: bnd_def)











subsection \<open>The locals for tunings of moderate size\<close>


















end
